theory Spec2Isabelle
  imports Complex_Main "HOL-Library.Sublist"
begin

chapter \<open>The event-response analysis engine\<close>

section \<open>Numbers and dates\<close>

text \<open>
  JavaScript numbers are carried as exact reals. The only non-finite values that the
  analysis code can produce come from a division whose denominator is zero, so every
  unguarded division of the source returns a \<open>jsnum\<close>: a finite real, one of the two
  infinities, or NaN. Comparisons with NaN are false, as in JavaScript.
\<close>

datatype jsnum = Fin real | PosInf | NegInf | NaN

definition js_div :: "real \<Rightarrow> real \<Rightarrow> jsnum" where
  "js_div a b =
     (if b \<noteq> 0 then Fin (a / b)
      else if 0 < a then PosInf
      else if a < 0 then NegInf
      else NaN)"

fun js_gt :: "jsnum \<Rightarrow> real \<Rightarrow> bool" where
  "js_gt (Fin x) y = (y < x)"
| "js_gt PosInf y = True"
| "js_gt NegInf y = False"
| "js_gt NaN y = False"

fun js_ge :: "jsnum \<Rightarrow> real \<Rightarrow> bool" where
  "js_ge (Fin x) y = (y \<le> x)"
| "js_ge PosInf y = True"
| "js_ge NegInf y = False"
| "js_ge NaN y = False"

fun js_le :: "jsnum \<Rightarrow> real \<Rightarrow> bool" where
  "js_le (Fin x) y = (x \<le> y)"
| "js_le PosInf y = False"
| "js_le NegInf y = True"
| "js_le NaN y = False"

text \<open>\<open>1 - x\<close> and \<open>|x - 1| * 100\<close> on a possibly non-finite \<open>x\<close>.\<close>

fun js_one_minus :: "jsnum \<Rightarrow> jsnum" where
  "js_one_minus (Fin x) = Fin (1 - x)"
| "js_one_minus PosInf = NegInf"
| "js_one_minus NegInf = PosInf"
| "js_one_minus NaN = NaN"

fun js_margin :: "jsnum \<Rightarrow> jsnum" where
  "js_margin (Fin x) = Fin (\<bar>x - 1\<bar> * 100)"
| "js_margin PosInf = PosInf"
| "js_margin NegInf = PosInf"
| "js_margin NaN = NaN"

text \<open>
  The source keeps a calendar date as \<open>YYYY-MM-DD\<close> text, carried here as its day number
  (days since 1970-01-01, valid dates only), so that the comparison of two date texts is
  the comparison of their day numbers. A \<open>Date\<close> object is its time value, the
  milliseconds since the epoch. \<open>new Date\<close> reads a date text as midnight UTC of that
  day, and \<open>formatDate\<close> (\<open>toISOString\<close> cut at the \<open>T\<close>) gives the UTC calendar day
  of a time value.
\<close>

type_synonym date = int

type_synonym instant = int

abbreviation msPerDay :: int where
  "msPerDay \<equiv> 86400000"

abbreviation msPerHour :: int where
  "msPerHour \<equiv> 3600000"

definition parseDate :: "date \<Rightarrow> instant" where
  "parseDate dateStr = dateStr * msPerDay"

definition formatDate :: "instant \<Rightarrow> date" where
  "formatDate d = d div msPerDay"

text \<open>
  The time zone of the host. Local time is \<open>standard\<close> milliseconds ahead of UTC, and one
  hour more inside each of the \<open>daylight\<close> periods, given by the instants at which they
  begin and end. \<open>LocalTime\<close> turns a time value into local clock time. \<open>UTC\<close> turns local
  clock time back into a time value: a clock time that occurs twice (at the end of a
  daylight period) is read as the earlier instant, and one that the clock skips (at the
  beginning of a daylight period) is read with the offset in force before the change.
\<close>

record zone =
  standard :: int
  daylight :: "(instant \<times> instant) list"

definition inDaylight :: "zone \<Rightarrow> instant \<Rightarrow> bool" where
  "inDaylight tz t = list_ex (\<lambda>p. fst p \<le> t \<and> t < snd p) (daylight tz)"

definition LocalTime :: "zone \<Rightarrow> instant \<Rightarrow> int" where
  "LocalTime tz t = t + standard tz + (if inDaylight tz t then msPerHour else 0)"

definition UTC :: "zone \<Rightarrow> int \<Rightarrow> instant" where
  "UTC tz l =
     (if inDaylight tz (l - standard tz - msPerHour) then l - standard tz - msPerHour
      else l - standard tz)"

text \<open>A zone that keeps one offset all year, UTC among them, and Central European time
  with the daylight period of 2023 (26 March 01:00 UTC to 29 October 01:00 UTC).\<close>

definition fixed_zone :: "int \<Rightarrow> zone" where
  "fixed_zone ofs = \<lparr>standard = ofs, daylight = []\<rparr>"

definition utc :: zone where
  "utc = fixed_zone 0"

definition berlin :: zone where
  "berlin = \<lparr>standard = msPerHour,
              daylight = [(19442 * msPerDay + msPerHour, 19659 * msPerDay + msPerHour)]\<rparr>"

text \<open>The calendar fields of a day number (proleptic Gregorian calendar): year, month
  (from 1) and day of the month.\<close>

definition civil :: "date \<Rightarrow> int \<times> int \<times> int" where
  "civil z0 =
     (let z = z0 + 719468;
          era = z div 146097;
          doe = z - era * 146097;
          yoe = (doe - doe div 1460 + doe div 36524 - doe div 146096) div 365;
          y = yoe + era * 400;
          doy = doe - (365 * yoe + yoe div 4 - yoe div 100);
          mp = (5 * doy + 2) div 153;
          d = doy - (153 * mp + 2) div 5 + 1;
          m = (if mp < 10 then mp + 3 else mp - 9)
      in (if m \<le> 2 then y + 1 else y, m, d))"

text \<open>The year a date text begins with, and the local calendar fields of a \<open>Date\<close>
  object as \<open>getMonth\<close> (from 0) and \<open>getDate\<close> report them.\<close>

definition yearOf :: "date \<Rightarrow> int" where
  "yearOf dateStr = fst (civil dateStr)"

definition getMonth :: "zone \<Rightarrow> instant \<Rightarrow> int" where
  "getMonth tz d = fst (snd (civil (LocalTime tz d div msPerDay))) - 1"

definition getDate :: "zone \<Rightarrow> instant \<Rightarrow> int" where
  "getDate tz d = snd (snd (civil (LocalTime tz d div msPerDay)))"

section \<open>utils.js\<close>

text \<open>\<open>daysDiff\<close> is called with two date texts.\<close>

definition daysDiff :: "date \<Rightarrow> date \<Rightarrow> int" where
  "daysDiff date1 date2 = (parseDate date2 - parseDate date1) div msPerDay"

text \<open>
  \<open>addDays\<close> works on a copy of the \<open>Date\<close> it is given. \<open>setDate(getDate() + days)\<close>
  moves the local calendar day and keeps the local time of day: the local clock time
  advances by \<open>days\<close> whole days and is converted back.
\<close>

definition addDays :: "zone \<Rightarrow> instant \<Rightarrow> int \<Rightarrow> instant" where
  "addDays tz d days = UTC tz (LocalTime tz d + days * msPerDay)"

record baseline_entry =
  Date :: date
  ADIZ_count :: "real option"

datatype error = Error string | TypeError

text \<open>
  A row of \<open>adiz_baseline\<close> is a record or \<open>null\<close>; reading \<open>entry.Date\<close> of a \<open>null\<close>
  row raises a \<open>TypeError\<close>. \<open>ADIZ_count\<close> is \<open>None\<close> when \<open>parseFloat\<close> yields NaN; the
  entry then stores 0.
\<close>

definition createBaselineMap :: "baseline_entry option list \<Rightarrow> error + (date \<rightharpoonup> real)" where
  "createBaselineMap adiz_baseline =
     (case those adiz_baseline of
        None \<Rightarrow> Inl TypeError
      | Some entries \<Rightarrow>
          Inr (fold (\<lambda>entry m. m(Date entry \<mapsto>
                       (case ADIZ_count entry of None \<Rightarrow> 0 | Some v \<Rightarrow> v)))
                 entries Map.empty))"

text \<open>\<open>getADIZCount\<close> looks a date text up; a caller that holds a \<open>Date\<close> object has it
  formatted first.\<close>

definition getADIZCount :: "date \<Rightarrow> (date \<rightharpoonup> real) \<Rightarrow> real" where
  "getADIZCount dateStr baselineMap = (case baselineMap dateStr of None \<Rightarrow> 0 | Some v \<Rightarrow> v)"

text \<open>
  The loop \<open>for (d = new Date(start); d <= end; d = addDays(d, 1))\<close> of \<open>getDateWindow\<close>
  and of \<open>getBaselineStats\<close>; \<open>body\<close> is what the loop pushes for the \<open>Date\<close> \<open>d\<close>. A step
  of \<open>addDays\<close> advances the time value by 23, 24 or 25 hours.
\<close>

function dateLoop ::
  "zone \<Rightarrow> (instant \<Rightarrow> 'a) \<Rightarrow> instant \<Rightarrow> instant \<Rightarrow> 'a list \<Rightarrow> 'a list" where
  "dateLoop tz body d end acc =
     (if d \<le> end then dateLoop tz body (addDays tz d 1) end (acc @ [body d]) else acc)"
  by pat_completeness auto
termination
  by (relation "measure (\<lambda>(tz, body, d, e, acc). nat (e - d + 1))")
    (auto simp: addDays_def LocalTime_def UTC_def)

declare dateLoop.simps [simp del]

definition getDateWindow :: "zone \<Rightarrow> date \<Rightarrow> int \<Rightarrow> date list" where
  "getDateWindow tz eventDate windowSize =
     (let start = addDays tz (parseDate eventDate) (- windowSize);
          end = addDays tz (parseDate eventDate) windowSize
      in dateLoop tz formatDate start end [])"

record window_point =
  date :: date
  adiz_count :: real
  days_from_event :: int

definition getWindowData ::
  "zone \<Rightarrow> date \<Rightarrow> int \<Rightarrow> (date \<rightharpoonup> real) \<Rightarrow> window_point list" where
  "getWindowData tz eventDate windowSize baselineMap =
     map (\<lambda>d. \<lparr>window_point.date = d,
               adiz_count = getADIZCount d baselineMap,
               days_from_event = daysDiff eventDate d\<rparr>)
       (getDateWindow tz eventDate windowSize)"

definition mean :: "real list \<Rightarrow> real" where
  "mean vals = (if vals = [] then 0 else sum_list vals / real (length vals))"

definition stdDev :: "real list \<Rightarrow> real" where
  "stdDev vals =
     (if vals = [] then 0
      else let avg = mean vals;
               squareDiffs = map (\<lambda>v. (v - avg)\<^sup>2) vals
           in sqrt (mean squareDiffs))"

definition max_values :: "real list \<Rightarrow> real" where
  "max_values vals = (case vals of [] \<Rightarrow> 0 | v # vs \<Rightarrow> fold max vs v)"

definition min_values :: "real list \<Rightarrow> real" where
  "min_values vals = (case vals of [] \<Rightarrow> 0 | v # vs \<Rightarrow> fold min vs v)"

record baseline_stats =
  bs_mean :: real
  bs_stdDev :: real
  bs_max :: real
  bs_min :: real
  bs_count :: nat

definition getBaselineStats ::
  "zone \<Rightarrow> date \<Rightarrow> int \<Rightarrow> (date \<rightharpoonup> real) \<Rightarrow> baseline_stats" where
  "getBaselineStats tz eventDate baselineDays baselineMap =
     (let baselineEnd = addDays tz (parseDate eventDate) (- 1);
          baselineStart = addDays tz baselineEnd (- baselineDays);
          vals = dateLoop tz (\<lambda>d. getADIZCount (formatDate d) baselineMap)
                   baselineStart baselineEnd []
      in \<lparr>bs_mean = mean vals,
          bs_stdDev = stdDev vals,
          bs_max = max_values vals,
          bs_min = min_values vals,
          bs_count = length vals\<rparr>)"

record time_to_peak =
  tp_days :: int
  tp_value :: real
  tp_date :: date

definition getTimeToPeak :: "window_point list \<Rightarrow> time_to_peak option" where
  "getTimeToPeak windowData =
     (case filter (\<lambda>d. 0 \<le> days_from_event d) windowData of
        [] \<Rightarrow> None
      | p # ps \<Rightarrow>
          (let maxEntry = fold (\<lambda>curr mx. if adiz_count mx < adiz_count curr then curr else mx) ps p
           in Some \<lparr>tp_days = days_from_event maxEntry,
                    tp_value = adiz_count maxEntry,
                    tp_date = window_point.date maxEntry\<rparr>))"

definition getPersistence :: "window_point list \<Rightarrow> real \<Rightarrow> nat" where
  "getPersistence windowData threshold =
     length (filter (\<lambda>d. 0 \<le> days_from_event d \<and> threshold < adiz_count d) windowData)"

section \<open>schema.js\<close>

text \<open>
  A raw record maps field names to values; the date-valued fields are held apart from
  the text fields because a date is a day number here.
\<close>

record raw_event =
  dates :: "string \<rightharpoonup> date"
  texts :: "string \<rightharpoonup> string"

record dataset_config =
  date_field :: string
  config_category :: string
  required :: "string list"

text \<open>\<open>DataSchema.events\<close>, in the order of its keys.\<close>

definition schema_events :: "(string \<times> dataset_config) list" where
  "schema_events =
     [(''arms_sales'',
         \<lparr>date_field = ''date'', config_category = ''arms'',
          required = [''date'', ''weapon_sale'']\<rparr>),
      (''diplomatic'',
         \<lparr>date_field = ''Date'', config_category = ''diplomatic'',
          required = [''Date'', ''Descriptor'']\<rparr>),
      (''bills'',
         \<lparr>date_field = ''Date'', config_category = ''bills'',
          required = [''Date'', ''Bill_ID'', ''Milestone'']\<rparr>),
      (''ships'',
         \<lparr>date_field = ''Date'', config_category = ''ships'',
          required = [''Date'', ''Country'', ''Ship_Type'']\<rparr>),
      (''political_symbolic'',
         \<lparr>date_field = ''date'', config_category = ''political'',
          required = [''date'', ''event_name'']\<rparr>)]"

text \<open>A value interpolated into a template string, or joined to a string with \<open>+\<close>:
  \<open>undefined\<close> prints as such.\<close>

definition interp :: "string option \<Rightarrow> string" where
  "interp v = (case v of None \<Rightarrow> ''undefined'' | Some s \<Rightarrow> s)"

text \<open>\<open>a || b\<close> on text values: the empty string and \<open>undefined\<close> are falsy.\<close>

definition or_else :: "string option \<Rightarrow> string option \<Rightarrow> string option" where
  "or_else a b = (case a of None \<Rightarrow> b | Some s \<Rightarrow> if s = [] then b else Some s)"

definition or_text :: "string option \<Rightarrow> string \<Rightarrow> string" where
  "or_text a b = (case a of None \<Rightarrow> b | Some s \<Rightarrow> if s = [] then b else s)"

definition getEventLabel :: "string \<Rightarrow> raw_event \<Rightarrow> string option" where
  "getEventLabel dataset_name ev =
     (if dataset_name = ''arms_sales'' then
        Some (or_text (Some (interp (map_option (take 50) (texts ev ''weapon_sale'')) @ ''...''))
          ''Arms Sale'')
      else if dataset_name = ''diplomatic'' then
        Some (or_text (Some (interp (map_option (take 50) (texts ev ''Descriptor'')) @ ''...''))
          ''Diplomatic Event'')
      else if dataset_name = ''bills'' then
        Some (interp (texts ev ''Bill_ID'') @ '' - '' @ interp (texts ev ''Milestone''))
      else if dataset_name = ''ships'' then
        Some (interp (texts ev ''Country'') @ '' - '' @ interp (texts ev ''Ship_Type''))
      else if dataset_name = ''political_symbolic'' then
        or_else (texts ev ''short_label'') (texts ev ''event_name'')
      else Some ''Unknown Event'')"

definition getEventDescription :: "string \<Rightarrow> raw_event \<Rightarrow> string" where
  "getEventDescription dataset_name ev =
     (if dataset_name = ''arms_sales'' then
        or_text (texts ev ''weapon_sale'') []
      else if dataset_name = ''diplomatic'' then
        or_text (texts ev ''Descriptor'') []
      else if dataset_name = ''bills'' then
        interp (texts ev ''Bill_ID'') @ '': '' @ interp (texts ev ''Milestone'')
      else if dataset_name = ''ships'' then
        or_text (texts ev ''Label'')
          (interp (texts ev ''Country'') @ '' '' @ interp (texts ev ''Ship_Type''))
      else if dataset_name = ''political_symbolic'' then
        or_text (or_else (texts ev ''description'') (texts ev ''event_name'')) []
      else [])"

text \<open>
  The record \<open>normalizeEvent\<close> returns. \<open>n_date\<close> is \<open>None\<close> when the raw record has no
  value under the dataset's date field; the label is \<open>None\<close> when it is \<open>undefined\<close>.
  A row of a dataset is a raw record or \<open>null\<close>; reading the date field of a \<open>null\<close> row
  raises a \<open>TypeError\<close>.
\<close>

record normalized =
  n_date :: "date option"
  n_category :: string
  n_label :: "string option"
  n_description :: string
  n_fields :: raw_event

definition normalizeEvent :: "string \<Rightarrow> raw_event option \<Rightarrow> error + normalized option" where
  "normalizeEvent dataset_name raw_event =
     (case map_of schema_events dataset_name of
        None \<Rightarrow> Inr None
      | Some config \<Rightarrow>
          (case raw_event of
             None \<Rightarrow> Inl TypeError
           | Some raw \<Rightarrow>
               Inr (Some \<lparr>n_date = dates raw (date_field config),
                          n_category = config_category config,
                          n_label = getEventLabel dataset_name raw,
                          n_description = getEventDescription dataset_name raw,
                          n_fields = raw\<rparr>)))"

datatype dataset_value = NotArray | Rows "raw_event option list"

text \<open>
  The DATA object: \<open>adiz_baseline\<close> is \<open>None\<close> when the property is missing or not an
  array; a dataset is absent, present but not an array, or an array of rows.
\<close>

record raw_data =
  adiz_baseline :: "baseline_entry option list option"
  datasets :: "string \<rightharpoonup> dataset_value"

record validation =
  ok :: bool
  errors :: "string list"

definition validate :: "raw_data option \<Rightarrow> validation" where
  "validate DATA =
     (case DATA of
        None \<Rightarrow> \<lparr>ok = False, errors = [''DATA is not an object'']\<rparr>
      | Some D \<Rightarrow>
          (let errs1 = (if adiz_baseline D = None
                        then [''Missing or invalid adiz_baseline array''] else []);
               errs2 = concat (map (\<lambda>dataset.
                          case datasets D dataset of
                            Some NotArray \<Rightarrow> [dataset @ '' must be an array'']
                          | _ \<Rightarrow> [])
                        (map fst schema_events));
               errs = errs1 @ errs2
           in \<lparr>ok = (errs = []), errors = errs\<rparr>))"

section \<open>dataConnector.js\<close>

record event =
  date :: date
  category :: string
  label :: "string option"
  description :: string
  raw_fields :: raw_event
  dataset :: string

text \<open>
  The connector's three slots, each \<open>null\<close> until \<open>loadFromObject\<close> assigns it.
  \<open>isLoaded\<close> tests \<open>currentData\<close> alone.
\<close>

record connector =
  currentData :: "raw_data option"
  baselineMap :: "(date \<rightharpoonup> real) option"
  eventIndex :: "event list option"

definition DataConnector_init :: connector where
  "DataConnector_init = \<lparr>currentData = None, baselineMap = None, eventIndex = None\<rparr>"

definition isLoaded :: "connector \<Rightarrow> bool" where
  "isLoaded conn = (currentData conn \<noteq> None)"

text \<open>The first error of a sequence of steps, or what the steps pushed, in order.\<close>

fun collect :: "(error + 'a list) list \<Rightarrow> error + 'a list" where
  "collect [] = Inr []"
| "collect (Inl e # rs) = Inl e"
| "collect (Inr xs # rs) = (case collect rs of Inl e \<Rightarrow> Inl e | Inr ys \<Rightarrow> Inr (xs @ ys))"

text \<open>What the inner \<open>forEach\<close> of \<open>buildEventIndex\<close> pushes for one row, and for one
  dataset.\<close>

definition rowEvents :: "string \<Rightarrow> raw_event option \<Rightarrow> error + event list" where
  "rowEvents dataset_name raw_event =
     (case normalizeEvent dataset_name raw_event of
        Inl e \<Rightarrow> Inl e
      | Inr None \<Rightarrow> Inr []
      | Inr (Some n) \<Rightarrow>
          (case n_date n of
             None \<Rightarrow> Inr []
           | Some d \<Rightarrow>
               Inr [\<lparr>event.date = d, category = n_category n, label = n_label n,
                     description = n_description n, raw_fields = n_fields n,
                     dataset = dataset_name\<rparr>]))"

definition datasetEvents :: "raw_data \<Rightarrow> string \<Rightarrow> error + event list" where
  "datasetEvents DATA dataset_name =
     (case datasets DATA dataset_name of
        Some (Rows rows) \<Rightarrow> collect (map (rowEvents dataset_name) rows)
      | _ \<Rightarrow> Inr [])"

text \<open>The comparison function of the sort subtracts the two dates' time values, and the
  sort is stable.\<close>

definition buildEventIndex :: "raw_data \<Rightarrow> error + event list" where
  "buildEventIndex DATA =
     (case collect (map (datasetEvents DATA) (map fst schema_events)) of
        Inl e \<Rightarrow> Inl e
      | Inr events \<Rightarrow> Inr (sort_key (\<lambda>e. parseDate (event.date e)) events))"

fun join_comma :: "string list \<Rightarrow> string" where
  "join_comma [] = []"
| "join_comma [s] = s"
| "join_comma (s # t # ss) = s @ '', '' @ join_comma (t # ss)"

record load_result =
  lr_ok :: bool
  lr_data :: raw_data
  eventCount :: nat

text \<open>
  \<open>loadFromObject\<close> returns its result, or the error it raises, together with the
  connector as the call leaves it. The three slots are assigned one after the other:
  \<open>currentData\<close> before the baseline map is built, the map before the index is built, so
  that an error raised on the way leaves the earlier assignments in place. (A DATA that
  passes \<open>validate\<close> is an object with an \<open>adiz_baseline\<close> array; the two \<open>None\<close> cases
  below are never reached.)
\<close>

definition loadFromObject ::
  "connector \<Rightarrow> raw_data option \<Rightarrow> (error + load_result) \<times> connector" where
  "loadFromObject conn DATA =
     (let validation = validate DATA
      in if \<not> ok validation
         then (Inl (Error (''Invalid DATA structure: '' @ join_comma (errors validation))), conn)
         else
           (case DATA of
              None \<Rightarrow> (Inl TypeError, conn)
            | Some D \<Rightarrow>
                (let conn1 = conn\<lparr>currentData := Some D\<rparr>
                 in case adiz_baseline D of
                      None \<Rightarrow> (Inl TypeError, conn1)
                    | Some entries \<Rightarrow>
                        (case createBaselineMap entries of
                           Inl e \<Rightarrow> (Inl e, conn1)
                         | Inr m \<Rightarrow>
                             (let conn2 = conn1\<lparr>baselineMap := Some m\<rparr>
                              in case buildEventIndex D of
                                   Inl e \<Rightarrow> (Inl e, conn2)
                                 | Inr idx \<Rightarrow>
                                     (Inr \<lparr>lr_ok = True, lr_data = D,
                                           eventCount = length idx\<rparr>,
                                      conn2\<lparr>eventIndex := Some idx\<rparr>))))))"

text \<open>
  The filters of \<open>getEvents\<close>. A text filter that is \<open>undefined\<close> or empty is falsy and
  does not apply. The year filter is \<open>ALL\<close> or one year; \<open>e.date.startsWith(year)\<close> on the
  date text is the comparison of the year the text begins with.
\<close>

datatype year_filter = ALL | Year int

record filters =
  category :: "string option"
  startDate :: "date option"
  endDate :: "date option"
  year :: "year_filter option"
  dataset :: "string option"
  customFilter :: "(event \<Rightarrow> bool) option"

definition no_filters :: filters where
  "no_filters = \<lparr>filters.category = None, startDate = None, endDate = None, year = None,
                  filters.dataset = None, customFilter = None\<rparr>"

definition getEvents :: "connector \<Rightarrow> filters \<Rightarrow> event list" where
  "getEvents conn flt =
     (case eventIndex conn of
        None \<Rightarrow> []
      | Some idx \<Rightarrow>
          (let filtered = idx;
               filtered = (case filters.category flt of
                             Some cat \<Rightarrow>
                               if cat \<noteq> [] \<and> cat \<noteq> ''all''
                               then filter (\<lambda>e. event.category e = cat) filtered
                               else filtered
                           | None \<Rightarrow> filtered);
               filtered = (case startDate flt of
                             Some s \<Rightarrow> filter (\<lambda>e. s \<le> event.date e) filtered
                           | None \<Rightarrow> filtered);
               filtered = (case endDate flt of
                             Some s \<Rightarrow> filter (\<lambda>e. event.date e \<le> s) filtered
                           | None \<Rightarrow> filtered);
               filtered = (case year flt of
                             Some (Year y) \<Rightarrow> filter (\<lambda>e. yearOf (event.date e) = y) filtered
                           | _ \<Rightarrow> filtered);
               filtered = (case filters.dataset flt of
                             Some ds \<Rightarrow>
                               if ds \<noteq> [] then filter (\<lambda>e. event.dataset e = ds) filtered
                               else filtered
                           | None \<Rightarrow> filtered);
               filtered = (case customFilter flt of
                             Some f \<Rightarrow> filter f filtered
                           | None \<Rightarrow> filtered)
           in filtered))"

definition getEventsInWindow :: "zone \<Rightarrow> connector \<Rightarrow> date \<Rightarrow> int \<Rightarrow> event list" where
  "getEventsInWindow tz conn centerDate windowSize =
     (let dts = getDateWindow tz centerDate windowSize;
          startDate = (case dts of [] \<Rightarrow> None | d # _ \<Rightarrow> Some d);
          endDate = (case dts of [] \<Rightarrow> None | _ # _ \<Rightarrow> Some (last dts))
      in getEvents conn (no_filters\<lparr>startDate := startDate, endDate := endDate\<rparr>))"

section \<open>preplannedReactive.js\<close>

text \<open>
  Every signal carries a \<open>reactiveScore\<close>; it is \<open>None\<close> when the property is
  \<open>undefined\<close> or \<open>null\<close> on the object the signal function returns. A field that only
  some return statements of a signal function set is an option. The explanation texts
  and the narrative summary are left out: no number or verdict is computed from them.
\<close>

record signal =
  reactiveScore :: "real option"

record temporal_signal = signal +
  responseTime :: "int option"
  proximity :: string

record buildup_signal = signal +
  trend :: string
  slope :: "jsnum option"
  avgPreEvent :: "real option"
  baseline :: "real option"

record magnitude_signal = signal +
  thisPeak :: "real option"
  avgSimilarPeak :: "real option"
  ratio :: "jsnum option"
  temporalDays :: "int option"
  comparison :: string

record symbolic_signal = signal +
  isSymbolic :: bool
  symbolicDate :: "string option"
  nearbyEvents :: "(event \<times> int) list"
  closestEvent :: "(event \<times> int) option"
  symbolic_class :: "string option"

record pattern_signal = signal +
  pattern :: string
  sharpness :: jsnum
  decayRate :: jsnum
  sustained :: bool

record signals =
  temporal :: temporal_signal
  buildup :: buildup_signal
  magnitude :: magnitude_signal
  symbolic :: symbolic_signal
  pattern :: pattern_signal

record symbolic_date =
  sd_month :: int
  sd_day :: int
  sd_name :: string

definition SYMBOLIC_DATES :: "symbolic_date list" where
  "SYMBOLIC_DATES =
     [\<lparr>sd_month = 10, sd_day = 10, sd_name = ''Double Ten Day (ROC National Day)''\<rparr>,
      \<lparr>sd_month = 1, sd_day = 1, sd_name = ''New Year's Day''\<rparr>,
      \<lparr>sd_month = 5, sd_day = 20, sd_name = ''Taiwan Presidential Inauguration''\<rparr>,
      \<lparr>sd_month = 7, sd_day = 1, sd_name = ''CCP Founding Day''\<rparr>,
      \<lparr>sd_month = 10, sd_day = 1, sd_name = ''PRC National Day''\<rparr>,
      \<lparr>sd_month = 12, sd_day = 10, sd_name = ''Human Rights Day''\<rparr>]"

definition analyzeTemporalProximity :: "window_point list \<Rightarrow> temporal_signal" where
  "analyzeTemporalProximity windowData =
     (case getTimeToPeak windowData of
        None \<Rightarrow> \<lparr>reactiveScore = Some 0, responseTime = None, proximity = ''unknown''\<rparr>
      | Some timeToPeak \<Rightarrow>
          (let days = tp_days timeToPeak
           in if 0 \<le> days \<and> days \<le> 2 then
                \<lparr>reactiveScore = Some 0.9, responseTime = Some days, proximity = ''immediate''\<rparr>
              else if 3 \<le> days \<and> days \<le> 9 then
                \<lparr>reactiveScore = Some 0.5, responseTime = Some days, proximity = ''delayed''\<rparr>
              else
                \<lparr>reactiveScore = Some 0.5, responseTime = Some days,
                 proximity = ''very_delayed''\<rparr>))"

definition calculateTrendSlope :: "window_point list \<Rightarrow> jsnum" where
  "calculateTrendSlope data =
     (let n = real (length data);
          x = map real [0..<length data];
          y = map adiz_count data;
          sumX = sum_list x;
          sumY = sum_list y;
          sumXY = sum_list (map2 (\<lambda>xi yi. xi * yi) x y);
          sumXX = sum_list (map (\<lambda>xi. xi * xi) x)
      in js_div (n * sumXY - sumX * sumY) (n * sumXX - sumX * sumX))"

definition analyzePreEventBuildup :: "window_point list \<Rightarrow> baseline_stats \<Rightarrow> buildup_signal" where
  "analyzePreEventBuildup windowData baselineStats =
     (let preEventData =
            sort_key days_from_event
              (filter (\<lambda>d. days_from_event d < 0 \<and> - 14 \<le> days_from_event d) windowData)
      in if length preEventData < 5 then
           \<lparr>reactiveScore = Some 0.5, trend = ''insufficient_data'', slope = None,
            avgPreEvent = None, baseline = None\<rparr>
         else
           (let vals = map adiz_count preEventData;
                mn = mean vals;
                slp = calculateTrendSlope preEventData;
                avgPre = mn;
                base = bs_mean baselineStats;
                isRising = js_gt slp 2;
                isElevated = (base * 1.2 < avgPre)
            in if isRising \<and> isElevated then
                 \<lparr>reactiveScore = Some 0.2, trend = ''rising'', slope = Some slp,
                  avgPreEvent = Some avgPre, baseline = Some base\<rparr>
               else if isElevated then
                 \<lparr>reactiveScore = Some 0.4, trend = ''elevated'', slope = Some slp,
                  avgPreEvent = Some avgPre, baseline = Some base\<rparr>
               else
                 \<lparr>reactiveScore = Some 0.8, trend = ''normal'', slope = Some slp,
                  avgPreEvent = Some avgPre, baseline = Some base\<rparr>))"

text \<open>\<open>temporalDays !== null && temporalDays <= k\<close>.\<close>

definition days_le :: "int option \<Rightarrow> int \<Rightarrow> bool" where
  "days_le tDays k = (case tDays of None \<Rightarrow> False | Some t \<Rightarrow> t \<le> k)"

text \<open>
  \<open>analyzeMagnitude\<close>. In the last branch the source has the labelled statement
  \<open>reactiveScore: 0.5;\<close>, which assigns nothing: the variable keeps the value
  \<open>undefined\<close> it was declared with. The function reads the connector's \<open>baselineMap\<close>
  slot, which its caller \<open>classify\<close> has read and used before; \<open>bmap\<close> is the map the
  slot holds.
\<close>

definition analyzeMagnitude ::
  "zone \<Rightarrow> connector \<Rightarrow> (date \<rightharpoonup> real) \<Rightarrow> event \<Rightarrow> window_point list \<Rightarrow> baseline_stats
     \<Rightarrow> int option \<Rightarrow> magnitude_signal" where
  "analyzeMagnitude tz conn bmap ev windowData baselineStats tDays =
     (let similarEvents =
            getEvents conn (no_filters\<lparr>filters.category := Some (event.category ev)\<rparr>)
      in if length similarEvents < 3 then
           \<lparr>reactiveScore = Some 0.5, thisPeak = None, avgSimilarPeak = None, ratio = None,
            temporalDays = None, comparison = ''insufficient_data''\<rparr>
         else
           (let peak = max_values (map adiz_count windowData);
                similarPeaks =
                  filter (\<lambda>p. 0 < p)
                    (map (\<lambda>e. max_values (map adiz_count
                                  (getWindowData tz (event.date e) 14 bmap)))
                       (take 20 similarEvents));
                avgSimilar = mean similarPeaks;
                r = js_div peak avgSimilar
            in if js_gt r 2.5 \<and> days_le tDays 3 then
                 \<lparr>reactiveScore = Some 0.95, thisPeak = Some peak, avgSimilarPeak = Some avgSimilar,
                  ratio = Some r, temporalDays = tDays,
                  comparison = ''much_larger_immediate''\<rparr>
               else if js_gt r 2.0 \<and> days_le tDays 5 then
                 \<lparr>reactiveScore = Some 0.85, thisPeak = Some peak, avgSimilarPeak = Some avgSimilar,
                  ratio = Some r, temporalDays = tDays,
                  comparison = ''large_near_immediate''\<rparr>
               else if js_gt r 2.5 then
                 \<lparr>reactiveScore = Some 0.7, thisPeak = Some peak, avgSimilarPeak = Some avgSimilar,
                  ratio = Some r, temporalDays = tDays, comparison = ''much_larger''\<rparr>
               else if js_gt r 1.5 then
                 \<lparr>reactiveScore = Some 0.6, thisPeak = Some peak, avgSimilarPeak = Some avgSimilar,
                  ratio = Some r, temporalDays = tDays, comparison = ''larger''\<rparr>
               else
                 \<lparr>reactiveScore = None, thisPeak = Some peak, avgSimilarPeak = Some avgSimilar,
                  ratio = Some r, temporalDays = tDays, comparison = ''typical''\<rparr>))"

text \<open>
  The text properties an index entry has of its own. \<open>buildEventIndex\<close> stores the
  normalised record with its \<open>dataset\<close>; the raw record's properties (such as
  \<open>event_type\<close>, \<open>event_name\<close>, \<open>short_label\<close>) sit under \<open>fields\<close>, not on the entry.
\<close>

definition event_prop :: "event \<Rightarrow> string \<Rightarrow> string option" where
  "event_prop e k =
     (if k = ''category'' then Some (event.category e)
      else if k = ''label'' then label e
      else if k = ''description'' then Some (description e)
      else if k = ''dataset'' then Some (event.dataset e)
      else None)"

text \<open>\<open>toLowerCase\<close> on the ASCII letters, and \<open>String.includes\<close>.\<close>

definition toLowerCase :: "string \<Rightarrow> string" where
  "toLowerCase s =
     map (\<lambda>c. if 65 \<le> (of_char c :: nat) \<and> (of_char c :: nat) \<le> 90
              then char_of (of_char c + 32 :: nat) else c) s"

primrec includes_text :: "string \<Rightarrow> string \<Rightarrow> bool" where
  "includes_text [] needle = (needle = [])"
| "includes_text (c # cs) needle = (prefix needle (c # cs) \<or> includes_text cs needle)"

definition checkHardcodedSymbolicDates :: "zone \<Rightarrow> date \<Rightarrow> symbolic_signal" where
  "checkHardcodedSymbolicDates tz eventDate =
     (let d = parseDate eventDate;
          month = getMonth tz d + 1;
          day = getDate tz d;
          matchingSymbolic =
            find (\<lambda>sd. let daysDiff = \<bar>(month * 100 + day) - (sd_month sd * 100 + sd_day sd)\<bar>
                       in daysDiff \<le> 2 \<or> 98 \<le> daysDiff) SYMBOLIC_DATES
      in case matchingSymbolic of
           Some sd \<Rightarrow>
             \<lparr>reactiveScore = Some 0.3, isSymbolic = True, symbolicDate = Some (sd_name sd),
              nearbyEvents = [], closestEvent = None, symbolic_class = None\<rparr>
         | None \<Rightarrow>
             \<lparr>reactiveScore = Some 0.5, isSymbolic = False, symbolicDate = None,
              nearbyEvents = [], closestEvent = None, symbolic_class = None\<rparr>)"

text \<open>
  The text \<open>analyzeSymbolicTiming\<close> matches keywords against, built from the closest
  political event, and its keyword chain with the score and the class of each branch.
\<close>

definition combinedText :: "event \<Rightarrow> string" where
  "combinedText closest =
     (let eventType = toLowerCase (or_text (event_prop closest ''event_type'') []);
          eventName = toLowerCase (or_text
            (or_else (event_prop closest ''event_name'')
                     (event_prop closest ''short_label'')) [])
      in eventType @ '' '' @ eventName)"

definition keywordScore :: "string \<Rightarrow> real \<times> string" where
  "keywordScore txt =
     (if includes_text txt ''exercise'' \<or> includes_text txt ''drill''
         \<or> includes_text txt ''maneuver'' then
        (0.7, ''reactive_to_exercise'')
      else if includes_text txt ''election'' \<or> includes_text txt ''vote'' then
        (0.2, ''preplanned_election'')
      else if includes_text txt ''congress'' \<or> includes_text txt ''ccp''
         \<or> includes_text txt ''party'' then
        (0.25, ''preplanned_congress'')
      else if includes_text txt ''inauguration'' \<or> includes_text txt ''10-10''
         \<or> includes_text txt ''double ten'' \<or> includes_text txt ''national day'' then
        (0.2, ''preplanned_symbolic'')
      else if includes_text txt ''lunar'' \<or> includes_text txt ''new year''
         \<or> includes_text txt ''spring festival'' then
        (0.3, ''preplanned_holiday'')
      else
        (0.4, ''ambiguous_political''))"

text \<open>The distance in days between two date texts is the difference of their time
  values, two midnights UTC, over the milliseconds of a day.\<close>

definition analyzeSymbolicTiming :: "zone \<Rightarrow> connector \<Rightarrow> date \<Rightarrow> symbolic_signal" where
  "analyzeSymbolicTiming tz conn eventDate =
     (let politicalEvents =
            getEvents conn (no_filters\<lparr>filters.category := Some ''political''\<rparr>)
      in if length politicalEvents = 0 then checkHardcodedSymbolicDates tz eventDate
         else
           (let nearby =
                  concat (map (\<lambda>pe.
                    let daysDiff = \<bar>parseDate eventDate - parseDate (event.date pe)\<bar> div msPerDay
                    in if daysDiff \<le> 15 then [(pe, daysDiff)] else [])
                            politicalEvents)
            in case sort_key snd nearby of
                 [] \<Rightarrow>
                   \<lparr>reactiveScore = Some 0.5, isSymbolic = False, symbolicDate = None,
                    nearbyEvents = [], closestEvent = None, symbolic_class = None\<rparr>
               | closest # rest \<Rightarrow>
                   (let scored = keywordScore (combinedText (fst closest))
                    in \<lparr>reactiveScore = Some (fst scored), isSymbolic = True,
                        symbolicDate = None, nearbyEvents = closest # rest,
                        closestEvent = Some closest, symbolic_class = Some (snd scored)\<rparr>)))"

definition isSustained :: "window_point list \<Rightarrow> bool" where
  "isSustained windowData =
     (let postEvent = filter (\<lambda>d. 0 < days_from_event d \<and> days_from_event d \<le> 7) windowData
      in if length postEvent < 5 then False
         else
           (let vals = map adiz_count postEvent;
                peak = max_values vals;
                highDays = length (filter (\<lambda>v. peak * 0.8 \<le> v) vals)
            in real (length vals) * 0.6 \<le> real highDays))"

text \<open>\<open>indexOf\<close> (-1 when absent) and \<open>slice\<close> on bounds that are not negative.\<close>

primrec indexOf :: "real list \<Rightarrow> real \<Rightarrow> int" where
  "indexOf [] v = - 1"
| "indexOf (x # xs) v = (if x = v then 0 else let i = indexOf xs v in if i < 0 then - 1 else i + 1)"

definition slice :: "int \<Rightarrow> int \<Rightarrow> 'a list \<Rightarrow> 'a list" where
  "slice a b xs = take (nat b - nat a) (drop (nat a) xs)"

definition analyzePattern :: "window_point list \<Rightarrow> pattern_signal" where
  "analyzePattern windowData =
     (let vals = map adiz_count windowData;
          peak = max_values vals;
          peakIndex = indexOf vals peak;
          preEventMean = mean (slice 0 (int (length vals div 2)) vals);
          sharp = js_div peak preEventMean;
          postPeakValues = slice (peakIndex + 1) (min (peakIndex + 8) (int (length vals))) vals;
          decay = (if 0 < length postPeakValues
                   then js_div (peak - mean postPeakValues) peak else Fin 0);
          sust = isSustained windowData
      in if js_gt sharp 2.5 \<and> js_gt decay 0.6 \<and> \<not> sust then
           \<lparr>reactiveScore = Some 0.95, pattern_signal.pattern = ''sharp_spike_rapid_decay'',
            sharpness = sharp, decayRate = decay, sustained = sust\<rparr>
         else if js_gt sharp 2.5 \<and> js_gt decay 0.4 \<and> \<not> sust then
           \<lparr>reactiveScore = Some 0.85, pattern_signal.pattern = ''sharp_spike_moderate_decay'',
            sharpness = sharp, decayRate = decay, sustained = sust\<rparr>
         else if js_gt sharp 2.5 \<and> \<not> sust then
           \<lparr>reactiveScore = Some 0.70, pattern_signal.pattern = ''sharp_spike'',
            sharpness = sharp, decayRate = decay, sustained = sust\<rparr>
         else if sust then
           \<lparr>reactiveScore = Some 0.25, pattern_signal.pattern = ''sustained'',
            sharpness = sharp, decayRate = decay, sustained = sust\<rparr>
         else
           \<lparr>reactiveScore = Some 0.5, pattern_signal.pattern = ''gradual'',
            sharpness = sharp, decayRate = decay, sustained = sust\<rparr>)"

record weights =
  temporal :: real
  buildup :: real
  magnitude :: real
  symbolic :: real
  pattern :: real

record classification =
  verdict :: string
  confidence :: string
  reactiveScore :: jsnum
  prePlannedScore :: jsnum
  weights :: weights

text \<open>The keys of the \<open>signals\<close> object in the order \<open>Object.keys\<close> lists them, and the
  lookups \<open>signals[key].reactiveScore\<close> and \<open>weights[key]\<close>.\<close>

datatype signal_key = Temporal | Buildup | Magnitude | Symbolic | Pattern

definition signal_keys :: "signal_key list" where
  "signal_keys = [Temporal, Buildup, Magnitude, Symbolic, Pattern]"

fun score_at :: "signals \<Rightarrow> signal_key \<Rightarrow> real option" where
  "score_at sigs Temporal = signal.reactiveScore (signals.temporal sigs)"
| "score_at sigs Buildup = signal.reactiveScore (signals.buildup sigs)"
| "score_at sigs Magnitude = signal.reactiveScore (signals.magnitude sigs)"
| "score_at sigs Symbolic = signal.reactiveScore (signals.symbolic sigs)"
| "score_at sigs Pattern = signal.reactiveScore (signals.pattern sigs)"

fun weight_at :: "weights \<Rightarrow> signal_key \<Rightarrow> real" where
  "weight_at w Temporal = weights.temporal w"
| "weight_at w Buildup = weights.buildup w"
| "weight_at w Magnitude = weights.magnitude w"
| "weight_at w Symbolic = weights.symbolic w"
| "weight_at w Pattern = weights.pattern w"

text \<open>The weight vector \<open>calculateClassification\<close> settles on before it combines the
  scores: the base weights, replaced as a whole by one of the two overrides.\<close>

definition selectWeights :: "signals \<Rightarrow> weights" where
  "selectWeights sigs =
     (if pattern_signal.pattern (signals.pattern sigs) = ''sharp_spike_rapid_decay'' then
        \<lparr>weights.temporal = 0.30, weights.buildup = 0.20, weights.magnitude = 0.25,
         weights.symbolic = 0.05, weights.pattern = 0.20\<rparr>
      else if comparison (signals.magnitude sigs) = ''much_larger_immediate''
            \<or> comparison (signals.magnitude sigs) = ''large_near_immediate'' then
        \<lparr>weights.temporal = 0.30, weights.buildup = 0.20, weights.magnitude = 0.30,
         weights.symbolic = 0.10, weights.pattern = 0.10\<rparr>
      else
        \<lparr>weights.temporal = 0.35, weights.buildup = 0.25, weights.magnitude = 0.20,
         weights.symbolic = 0.10, weights.pattern = 0.10\<rparr>)"

text \<open>One pass of the \<open>forEach\<close> over the keys, on the pair \<open>(totalScore, totalWeight)\<close>.\<close>

definition accumulate :: "signals \<Rightarrow> weights \<Rightarrow> signal_key \<Rightarrow> real \<times> real \<Rightarrow> real \<times> real" where
  "accumulate sigs w key acc =
     (case score_at sigs key of
        None \<Rightarrow> acc
      | Some sc \<Rightarrow> (fst acc + sc * weight_at w key, snd acc + weight_at w key))"

definition calculateClassification :: "signals \<Rightarrow> classification" where
  "calculateClassification sigs =
     (let w = selectWeights sigs;
          totals = fold (accumulate sigs w) signal_keys (0, 0);
          score = js_div (fst totals) (snd totals)
      in if js_ge score 0.65 then
           \<lparr>verdict = ''reactive'',
            confidence = (if js_ge score 0.8 then ''high'' else ''medium''),
            classification.reactiveScore = score, prePlannedScore = js_one_minus score,
            weights = w\<rparr>
         else if js_le score 0.35 then
           \<lparr>verdict = ''pre-planned'',
            confidence = (if js_le score 0.2 then ''high'' else ''medium''),
            classification.reactiveScore = score, prePlannedScore = js_one_minus score,
            weights = w\<rparr>
         else
           \<lparr>verdict = ''mixed'', confidence = ''low'',
            classification.reactiveScore = score, prePlannedScore = js_one_minus score,
            weights = w\<rparr>)"

text \<open>The options object; \<open>options.windowSize || d\<close> takes the default \<open>d\<close> when the
  property is \<open>undefined\<close> or 0.\<close>

record options =
  windowSize :: "int option"
  baselineDays :: "int option"

definition opt_or :: "int option \<Rightarrow> int \<Rightarrow> int" where
  "opt_or v d = (case v of None \<Rightarrow> d | Some x \<Rightarrow> if x = 0 then d else x)"

record classifier_analysis =
  ca_event :: event
  ca_windowSize :: int
  ca_windowData :: "window_point list"
  ca_baselineStats :: baseline_stats
  ca_signals :: signals
  ca_classification :: classification

type_synonym classifier_state = "classifier_analysis option"

text \<open>
  The fourth argument \<open>classify\<close> passes to \<open>analyzeMagnitude\<close> is the \<open>days\<close> property
  of the temporal signal. The object \<open>analyzeTemporalProximity\<close> returns has the
  properties \<open>responseTime\<close>, \<open>category\<close>, \<open>reactiveScore\<close> and \<open>explanation\<close>, none
  named \<open>days\<close>: the argument is \<open>undefined\<close> and the parameter takes its default, null.
\<close>

definition prop_days :: "temporal_signal \<Rightarrow> int option" where
  "prop_days t = None"

text \<open>
  \<open>classify\<close> returns the analysis and stores it in \<open>currentAnalysis\<close>. With the
  \<open>baselineMap\<close> slot \<open>null\<close> the first lookup raises a \<open>TypeError\<close>, at the latest on
  the first day of the 30-day baseline; nothing is stored before that.
\<close>

definition classify ::
  "zone \<Rightarrow> connector \<Rightarrow> event \<Rightarrow> options
     \<Rightarrow> error + (classifier_analysis \<times> classifier_state)" where
  "classify tz conn ev opts =
     (if \<not> isLoaded conn then Inl (Error ''Data not loaded'')
      else
        (case baselineMap conn of
           None \<Rightarrow> Inl TypeError
         | Some bmap \<Rightarrow>
             (let wsize = opt_or (windowSize opts) 21;
                  windowData = getWindowData tz (event.date ev) wsize bmap;
                  baselineStats = getBaselineStats tz (event.date ev) 30 bmap;
                  sigs = \<lparr>signals.temporal = analyzeTemporalProximity windowData,
                          signals.buildup = analyzePreEventBuildup windowData baselineStats,
                          signals.magnitude =
                            analyzeMagnitude tz conn bmap ev windowData baselineStats
                              (prop_days (analyzeTemporalProximity windowData)),
                          signals.symbolic = analyzeSymbolicTiming tz conn (event.date ev),
                          signals.pattern = analyzePattern windowData\<rparr>;
                  analysis = \<lparr>ca_event = ev, ca_windowSize = wsize, ca_windowData = windowData,
                              ca_baselineStats = baselineStats, ca_signals = sigs,
                              ca_classification = calculateClassification sigs\<rparr>
              in Inr (analysis, Some analysis))))"

record signal_breakdown =
  labels :: "string list"
  reactiveScores :: "real list"

text \<open>\<open>score || 0.5\<close>: \<open>undefined\<close> and 0 give 0.5.\<close>

definition score_or_half :: "real option \<Rightarrow> real" where
  "score_or_half v = (case v of None \<Rightarrow> 0.5 | Some x \<Rightarrow> if x = 0 then 0.5 else x)"

definition getSignalBreakdown :: "classifier_state \<Rightarrow> signal_breakdown option" where
  "getSignalBreakdown st =
     (case st of
        None \<Rightarrow> None
      | Some a \<Rightarrow>
          Some \<lparr>labels = [''Timing'', ''Pre-Event'' @ [CHR 0x0A] @ ''Buildup'', ''Magnitude'',
                          ''Symbolic'' @ [CHR 0x0A] @ ''Date'', ''Pattern''],
                reactiveScores = map (\<lambda>k. score_or_half (score_at (ca_signals a) k)) signal_keys\<rparr>)"

record trend_data =
  td_days :: "int list"
  td_adiz :: "real list"

definition getPreEventTrendData :: "classifier_state \<Rightarrow> trend_data option" where
  "getPreEventTrendData st =
     (case st of
        None \<Rightarrow> None
      | Some a \<Rightarrow>
          (let preEvent = filter (\<lambda>d. days_from_event d \<le> 0) (ca_windowData a)
           in Some \<lparr>td_days = map days_from_event preEvent, td_adiz = map adiz_count preEvent\<rparr>))"

section \<open>singleEvent.js\<close>

text \<open>
  The analyzers keep their last result in \<open>currentAnalysis\<close>; an analysis function returns
  the result with the analyzer's new state. An accessor returns \<open>None\<close> where the source
  returns null. Numbers that the source formats with \<open>toFixed\<close> for display are carried
  as numbers; \<open>meanDeltaPercent\<close> is \<open>None\<close> where the source gives \<open>'N/A'\<close>.
\<close>

record window_stats =
  ws_mean :: real
  ws_max :: real
  ws_min :: real
  ws_stdDev :: real

record impact =
  meanDelta :: real
  meanDeltaPercent :: "real option"
  timeToPeak :: "time_to_peak option"
  persistence :: nat
  threshold :: real

record single_analysis =
  sa_event :: event
  sa_eventDate :: date
  sa_window_size :: int
  sa_window_data :: "window_point list"
  sa_baseline_days :: int
  sa_baseline_stats :: baseline_stats
  sa_windowStats :: window_stats
  sa_impact :: impact
  sa_confounders :: "event list"

record single_state =
  currentEvent :: "event option"
  currentWindow :: int
  currentBaseline :: int
  currentAnalysis :: "single_analysis option"

definition SingleEventAnalyzer_init :: single_state where
  "SingleEventAnalyzer_init =
     \<lparr>currentEvent = None, currentWindow = 7, currentBaseline = 30, currentAnalysis = None\<rparr>"

text \<open>The record \<open>analyze\<close> builds once the data is known to be loaded; \<open>bmap\<close> is the
  map the connector's \<open>baselineMap\<close> slot holds.\<close>

definition SingleEventAnalyzer_result ::
  "zone \<Rightarrow> connector \<Rightarrow> (date \<rightharpoonup> real) \<Rightarrow> event \<Rightarrow> options \<Rightarrow> single_analysis" where
  "SingleEventAnalyzer_result tz conn bmap ev opts =
     (let curWindow = opt_or (windowSize opts) 7;
          curBaseline = opt_or (baselineDays opts) 30;
          evDate = event.date ev;
          windowData = getWindowData tz evDate curWindow bmap;
          baselineStats = getBaselineStats tz evDate curBaseline bmap;
          windowValues = map adiz_count (filter (\<lambda>d. 0 \<le> days_from_event d) windowData);
          wStats = \<lparr>ws_mean = mean windowValues, ws_max = max_values windowValues,
                    ws_min = min_values windowValues, ws_stdDev = stdDev windowValues\<rparr>;
          mDelta = ws_mean wStats - bs_mean baselineStats;
          mDeltaPercent = (if 0 < bs_mean baselineStats
                           then Some (mDelta / bs_mean baselineStats * 100) else None);
          ttp = getTimeToPeak windowData;
          thr = bs_mean baselineStats + bs_stdDev baselineStats;
          pers = getPersistence windowData thr;
          confs = filter (\<lambda>e. event.date e \<noteq> event.date ev \<or> label e \<noteq> label ev)
                    (getEventsInWindow tz conn evDate curWindow)
      in \<lparr>sa_event = ev, sa_eventDate = evDate, sa_window_size = curWindow,
          sa_window_data = windowData, sa_baseline_days = curBaseline,
          sa_baseline_stats = baselineStats, sa_windowStats = wStats,
          sa_impact = \<lparr>meanDelta = mDelta, meanDeltaPercent = mDeltaPercent,
                       timeToPeak = ttp, persistence = pers, threshold = thr\<rparr>,
          sa_confounders = confs\<rparr>)"

text \<open>
  \<open>analyze\<close> assigns \<open>currentEvent\<close>, \<open>currentWindow\<close> and \<open>currentBaseline\<close> before it
  computes anything, and \<open>currentAnalysis\<close> at the end, so it returns its result, or the
  error it raises, together with the analyzer's state as the call leaves it. With the
  \<open>baselineMap\<close> slot \<open>null\<close> the first lookup raises a \<open>TypeError\<close>; no lookup is made
  when the window has no date and the baseline period no day, and the result is then
  the one of an empty map.
\<close>

definition SingleEventAnalyzer_analyze ::
  "zone \<Rightarrow> connector \<Rightarrow> single_state \<Rightarrow> event \<Rightarrow> options
     \<Rightarrow> (error + single_analysis) \<times> single_state" where
  "SingleEventAnalyzer_analyze tz conn st ev opts =
     (if \<not> isLoaded conn then (Inl (Error ''Data not loaded''), st)
      else
        (let curWindow = opt_or (windowSize opts) 7;
             curBaseline = opt_or (baselineDays opts) 30;
             st1 = st\<lparr>currentEvent := Some ev, currentWindow := curWindow,
                       currentBaseline := curBaseline\<rparr>
         in case baselineMap conn of
              None \<Rightarrow>
                if getDateWindow tz (event.date ev) curWindow = []
                   \<and> bs_count (getBaselineStats tz (event.date ev) curBaseline Map.empty) = 0
                then (let analysis = SingleEventAnalyzer_result tz conn Map.empty ev opts
                      in (Inr analysis, st1\<lparr>currentAnalysis := Some analysis\<rparr>))
                else (Inl TypeError, st1)
            | Some bmap \<Rightarrow>
                (let analysis = SingleEventAnalyzer_result tz conn bmap ev opts
                 in (Inr analysis, st1\<lparr>currentAnalysis := Some analysis\<rparr>))))"

text \<open>\<open>findIndex\<close>: the position of the first element that satisfies the test, or -1.\<close>

primrec findIndex :: "('a \<Rightarrow> bool) \<Rightarrow> 'a list \<Rightarrow> int" where
  "findIndex P [] = - 1"
| "findIndex P (x # xs) =
     (if P x then 0 else let i = findIndex P xs in if i < 0 then - 1 else i + 1)"

record chart_data =
  chart_x :: "date list"
  chart_y :: "real list"
  event_date :: date
  event_index :: int
  chart_threshold :: real

definition getChartData :: "single_state \<Rightarrow> chart_data option" where
  "getChartData st =
     (case currentAnalysis st of
        None \<Rightarrow> None
      | Some a \<Rightarrow>
          Some \<lparr>chart_x = map window_point.date (sa_window_data a),
                chart_y = map adiz_count (sa_window_data a),
                event_date = sa_eventDate a,
                event_index = findIndex (\<lambda>d. window_point.date d = sa_eventDate a)
                                (sa_window_data a),
                chart_threshold = threshold (sa_impact a)\<rparr>)"

record summary_card =
  card_label :: "string option"
  card_date :: date
  card_category :: string
  card_description :: string
  baselineMean :: real
  windowMean :: real
  card_delta :: real
  deltaPercent :: "real option"
  maxSpike :: real
  card_timeToPeak :: "(int \<times> real) option"
  card_persistence :: nat
  card_threshold :: real
  card_confounders :: nat

definition getSummaryCard :: "single_state \<Rightarrow> summary_card option" where
  "getSummaryCard st =
     (case currentAnalysis st of
        None \<Rightarrow> None
      | Some a \<Rightarrow>
          Some \<lparr>card_label = label (sa_event a),
                card_date = sa_eventDate a,
                card_category = event.category (sa_event a),
                card_description = description (sa_event a),
                baselineMean = bs_mean (sa_baseline_stats a),
                windowMean = ws_mean (sa_windowStats a),
                card_delta = meanDelta (sa_impact a),
                deltaPercent = meanDeltaPercent (sa_impact a),
                maxSpike = ws_max (sa_windowStats a),
                card_timeToPeak = map_option (\<lambda>t. (tp_days t, tp_value t))
                                    (timeToPeak (sa_impact a)),
                card_persistence = persistence (sa_impact a),
                card_threshold = threshold (sa_impact a),
                card_confounders = length (sa_confounders a)\<rparr>)"

text \<open>\<open>getConfounders\<close> returns an array in both branches: \<open>[]\<close> before any analysis.\<close>

definition getConfounders :: "single_state \<Rightarrow> event list option" where
  "getConfounders st =
     (case currentAnalysis st of
        None \<Rightarrow> Some []
      | Some a \<Rightarrow> Some (sa_confounders a))"

section \<open>categoryAnalyzer.js\<close>

text \<open>
  The per-event record, which \<open>CategoryAnalyzer.analyze\<close> and \<open>ABCompare.analyzeGroup\<close>
  build with the same code. \<open>ea_timeToPeak\<close> is the peak's offset, or null.
\<close>

record event_analysis =
  ea_event :: event
  ea_windowData :: "window_point list"
  ea_baseline :: baseline_stats
  ea_peak :: real
  ea_timeToPeak :: "int option"
  ea_avg7DaySpike :: real
  ea_delta :: real

definition analyzeOne :: "zone \<Rightarrow> (date \<rightharpoonup> real) \<Rightarrow> int \<Rightarrow> event \<Rightarrow> event_analysis" where
  "analyzeOne tz bmap wsize ev =
     (let windowData = getWindowData tz (event.date ev) wsize bmap;
          baselineStats = getBaselineStats tz (event.date ev) 30 bmap;
          postEventValues =
            map adiz_count
              (filter (\<lambda>d. 0 < days_from_event d \<and> days_from_event d \<le> 7) windowData);
          spike = (if 0 < length postEventValues then mean postEventValues else 0);
          pk = max_values (map adiz_count windowData);
          ttp = getTimeToPeak windowData
      in \<lparr>ea_event = ev, ea_windowData = windowData, ea_baseline = baselineStats,
          ea_peak = pk, ea_timeToPeak = map_option tp_days ttp,
          ea_avg7DaySpike = spike, ea_delta = spike - bs_mean baselineStats\<rparr>)"

text \<open>The counts the events have at one offset; an event without a point there gives none.\<close>

definition valuesAtOffset :: "event_analysis list \<Rightarrow> int \<Rightarrow> real list" where
  "valuesAtOffset eventAnalyses off =
     concat (map (\<lambda>a. case find (\<lambda>d. days_from_event d = off) (ea_windowData a) of
                         None \<Rightarrow> []
                       | Some point \<Rightarrow> [adiz_count point])
               eventAnalyses)"

text \<open>The loop over the offsets 1 to \<open>windowSize\<close> that finds the day of the largest average
  count, on the pair \<open>(maxSpikeDay, maxSpikeValue)\<close>.\<close>

definition spikeStep :: "event_analysis list \<Rightarrow> int \<Rightarrow> int \<times> real \<Rightarrow> int \<times> real" where
  "spikeStep eventAnalyses off acc =
     (let vals = valuesAtOffset eventAnalyses off
      in if 0 < length vals \<and> snd acc < mean vals then (off, mean vals) else acc)"

definition maxSpike_loop :: "event_analysis list \<Rightarrow> int \<Rightarrow> int \<times> real" where
  "maxSpike_loop eventAnalyses wsize = fold (spikeStep eventAnalyses) [1..wsize] (0, 0)"

record curve_point =
  cp_offset :: int
  cp_mean :: real
  cp_stdDev :: real
  upperBound :: real
  lowerBound :: real
  cp_count :: nat

definition calculateAverageResponseCurve :: "event_analysis list \<Rightarrow> int \<Rightarrow> curve_point list" where
  "calculateAverageResponseCurve eventAnalyses wsize =
     concat (map (\<lambda>off.
        let vals = valuesAtOffset eventAnalyses off
        in if 0 < length vals
           then [\<lparr>cp_offset = off, cp_mean = mean vals, cp_stdDev = stdDev vals,
                  upperBound = mean vals + stdDev vals,
                  lowerBound = max 0 (mean vals - stdDev vals),
                  cp_count = length vals\<rparr>]
           else [])
       [- wsize..wsize])"

definition median :: "real list \<Rightarrow> real" where
  "median vals =
     (if length vals = 0 then 0
      else let sorted_vals = sort vals;
               mid = length sorted_vals div 2
           in if length sorted_vals mod 2 = 0
              then (sorted_vals ! (mid - 1) + sorted_vals ! mid) / 2
              else sorted_vals ! mid)"

record category_summary =
  avgPeak :: real
  avgPeakStdDev :: real
  avg7DaySpike :: real
  avgDelta :: real
  medianPeak :: real
  maxPeak :: real
  minPeak :: real
  avgTimeToPeak :: "real option"
  maxSpikeDay :: int
  maxSpikeValue :: real
  avgBaseline :: real
  avgIncrease :: real

record category_analysis =
  cat_filters :: filters
  cat_eventCount :: nat
  cat_windowSize :: int
  avgCurve :: "curve_point list"
  eventAnalyses :: "event_analysis list"
  summary :: category_summary
  topEvents :: "event_analysis list"
  bottomEvents :: "event_analysis list"

type_synonym category_state = "category_analysis option"

text \<open>The record \<open>analyze\<close> builds from the matching events, once there is one; \<open>bmap\<close>
  is the map the connector's \<open>baselineMap\<close> slot holds.\<close>

definition CategoryAnalyzer_result ::
  "zone \<Rightarrow> (date \<rightharpoonup> real) \<Rightarrow> filters \<Rightarrow> int \<Rightarrow> event list \<Rightarrow> category_analysis" where
  "CategoryAnalyzer_result tz bmap categoryFilters wsize events =
     (let eas = map (analyzeOne tz bmap wsize) events;
          allPeaks = map ea_peak eas;
          all7DaySpikes = map ea_avg7DaySpike eas;
          allDeltas = map ea_delta eas;
          allTimeToPeak = concat (map (\<lambda>a. case ea_timeToPeak a of
                                          None \<Rightarrow> [] | Some t \<Rightarrow> [real_of_int t]) eas);
          avgTtp = (if 0 < length allTimeToPeak then Some (mean allTimeToPeak) else None);
          avgBase = mean (map (\<lambda>a. bs_mean (ea_baseline a)) eas);
          avgPost = mean all7DaySpikes;
          spike = maxSpike_loop eas wsize;
          sortedByPeak = sort_key (\<lambda>a. - ea_peak a) eas
      in \<lparr>cat_filters = categoryFilters, cat_eventCount = length events,
          cat_windowSize = wsize,
          avgCurve = calculateAverageResponseCurve eas wsize,
          eventAnalyses = eas,
          summary =
            \<lparr>avgPeak = mean allPeaks, avgPeakStdDev = stdDev allPeaks,
             avg7DaySpike = mean all7DaySpikes, avgDelta = mean allDeltas,
             medianPeak = median allPeaks, maxPeak = max_values allPeaks,
             minPeak = min_values allPeaks, avgTimeToPeak = avgTtp,
             maxSpikeDay = fst spike, maxSpikeValue = snd spike,
             avgBaseline = avgBase, avgIncrease = avgPost - avgBase\<rparr>,
          topEvents = take 5 sortedByPeak,
          bottomEvents = rev (drop (length sortedByPeak - 5) sortedByPeak)\<rparr>)"

text \<open>
  With the \<open>baselineMap\<close> slot \<open>null\<close>, the analysis of the first matching event raises a
  \<open>TypeError\<close>, at the latest on the first day of its 30-day baseline. The result is
  stored at the end.
\<close>

definition CategoryAnalyzer_analyze ::
  "zone \<Rightarrow> connector \<Rightarrow> filters \<Rightarrow> options
     \<Rightarrow> error + (category_analysis \<times> category_state)" where
  "CategoryAnalyzer_analyze tz conn categoryFilters opts =
     (if \<not> isLoaded conn then Inl (Error ''Data not loaded'')
      else
        (let wsize = opt_or (windowSize opts) 14;
             events = getEvents conn categoryFilters
         in if length events = 0
            then Inl (Error ''No events match these filters. Try different filter combination.'')
            else
              (case baselineMap conn of
                 None \<Rightarrow> Inl TypeError
               | Some bmap \<Rightarrow>
                   (let analysis = CategoryAnalyzer_result tz bmap categoryFilters wsize events
                    in Inr (analysis, Some analysis)))))"

record curve_data =
  cd_offsets :: "int list"
  cd_mean :: "real list"
  cd_upperBound :: "real list"
  cd_lowerBound :: "real list"
  cd_maxValue :: jsnum

text \<open>\<open>Math.max\<close> of no arguments is \<open>-Infinity\<close>.\<close>

definition math_max :: "real list \<Rightarrow> jsnum" where
  "math_max vals = (case vals of [] \<Rightarrow> NegInf | v # vs \<Rightarrow> Fin (fold max vs v))"

definition getAverageCurveData :: "category_state \<Rightarrow> curve_data option" where
  "getAverageCurveData st =
     (case st of
        None \<Rightarrow> None
      | Some a \<Rightarrow>
          Some \<lparr>cd_offsets = map cp_offset (avgCurve a),
                cd_mean = map cp_mean (avgCurve a),
                cd_upperBound = map upperBound (avgCurve a),
                cd_lowerBound = map lowerBound (avgCurve a),
                cd_maxValue = math_max (map upperBound (avgCurve a))\<rparr>)"

record overlay_trace =
  trace_x :: "int list"
  trace_y :: "real list"
  trace_label :: "string option"

definition getEventOverlayData :: "category_state \<Rightarrow> overlay_trace list option" where
  "getEventOverlayData st =
     (case st of
        None \<Rightarrow> None
      | Some a \<Rightarrow>
          Some (map (\<lambda>analysis.
            let pts = concat (map (\<lambda>off.
                        case find (\<lambda>d. days_from_event d = off) (ea_windowData analysis) of
                          None \<Rightarrow> []
                        | Some point \<Rightarrow> [(off, adiz_count point)])
                      [- cat_windowSize a..cat_windowSize a])
            in \<lparr>trace_x = map fst pts, trace_y = map snd pts,
                trace_label = label (ea_event analysis)\<rparr>)
           (eventAnalyses a)))"

record category_card =
  cc_eventCount :: nat
  cc_summary :: category_summary

definition getSummary :: "category_state \<Rightarrow> category_card option" where
  "getSummary st =
     (case st of
        None \<Rightarrow> None
      | Some a \<Rightarrow> Some \<lparr>cc_eventCount = cat_eventCount a, cc_summary = summary a\<rparr>)"

record event_row =
  row_date :: date
  row_label :: "string option"
  row_peak :: real
  row_avg7Day :: real
  row_delta :: real

text \<open>The row \<open>getTopEvents\<close> and \<open>getBottomEvents\<close> make of one event.\<close>

definition eventRow :: "event_analysis \<Rightarrow> event_row" where
  "eventRow a =
     \<lparr>row_date = event.date (ea_event a), row_label = label (ea_event a),
      row_peak = ea_peak a, row_avg7Day = ea_avg7DaySpike a, row_delta = ea_delta a\<rparr>"

text \<open>\<open>getTopEvents\<close> and \<open>getBottomEvents\<close> return an array in both branches: \<open>[]\<close> before
  any analysis.\<close>

definition getTopEvents :: "category_state \<Rightarrow> event_row list option" where
  "getTopEvents st =
     (case st of
        None \<Rightarrow> Some []
      | Some a \<Rightarrow> Some (map eventRow (topEvents a)))"

definition getBottomEvents :: "category_state \<Rightarrow> event_row list option" where
  "getBottomEvents st =
     (case st of
        None \<Rightarrow> Some []
      | Some a \<Rightarrow> Some (map eventRow (bottomEvents a)))"

section \<open>abCompare.js\<close>

record group_stats =
  gs_avgPeak :: real
  gs_avgPeakStdDev :: real
  gs_avg7DaySpike :: real
  gs_avgDelta :: real
  gs_avgBaseline :: real
  gs_avgIncrease :: real
  gs_avgTimeToPeak :: "real option"
  gs_maxSpikeDay :: int
  gs_medianPeak :: real

text \<open>A point of \<open>ABCompare\<close>'s average curve has no \<open>count\<close> property.\<close>

record ab_curve_point =
  ab_offset :: int
  ab_mean :: real
  ab_stdDev :: real
  ab_upperBound :: real
  ab_lowerBound :: real

record group_result =
  groupName :: string
  group_eventCount :: nat
  group_eventAnalyses :: "event_analysis list"
  group_avgCurve :: "ab_curve_point list"
  stats :: group_stats

definition calculateAverageCurve :: "event_analysis list \<Rightarrow> int \<Rightarrow> ab_curve_point list" where
  "calculateAverageCurve eas wsize =
     concat (map (\<lambda>off.
        let vals = valuesAtOffset eas off
        in if 0 < length vals
           then [\<lparr>ab_offset = off, ab_mean = mean vals, ab_stdDev = stdDev vals,
                  ab_upperBound = mean vals + stdDev vals,
                  ab_lowerBound = max 0 (mean vals - stdDev vals)\<rparr>]
           else [])
       [- wsize..wsize])"

text \<open>\<open>analyzeGroup\<close> on the map \<open>bmap\<close> that the connector's \<open>baselineMap\<close> slot holds.\<close>

definition analyzeGroup ::
  "zone \<Rightarrow> (date \<rightharpoonup> real) \<Rightarrow> event list \<Rightarrow> int \<Rightarrow> string \<Rightarrow> group_result" where
  "analyzeGroup tz bmap events wsize name =
     (let eas = map (analyzeOne tz bmap wsize) events;
          allPeaks = map ea_peak eas;
          all7DaySpikes = map ea_avg7DaySpike eas;
          allDeltas = map ea_delta eas;
          allTimeToPeak = concat (map (\<lambda>a. case ea_timeToPeak a of
                                          None \<Rightarrow> [] | Some t \<Rightarrow> [real_of_int t]) eas);
          avgBase = mean (map (\<lambda>a. bs_mean (ea_baseline a)) eas);
          spike = maxSpike_loop eas wsize
      in \<lparr>groupName = name, group_eventCount = length events, group_eventAnalyses = eas,
          group_avgCurve = calculateAverageCurve eas wsize,
          stats =
            \<lparr>gs_avgPeak = mean allPeaks, gs_avgPeakStdDev = stdDev allPeaks,
             gs_avg7DaySpike = mean all7DaySpikes, gs_avgDelta = mean allDeltas,
             gs_avgBaseline = avgBase, gs_avgIncrease = mean all7DaySpikes - avgBase,
             gs_avgTimeToPeak =
               (if 0 < length allTimeToPeak then Some (mean allTimeToPeak) else None),
             gs_maxSpikeDay = fst spike, gs_medianPeak = median allPeaks\<rparr>\<rparr>)"

text \<open>The recommendation without its display texts: the summary and the details are
  assembled from the fields kept here and from the groups' statistics.\<close>

record recommendation =
  winnerName :: string
  severity :: string
  rec_ratio :: jsnum
  lessInflammatory :: string

definition generateRecommendation ::
  "group_result \<Rightarrow> group_result \<Rightarrow> string \<Rightarrow> jsnum \<Rightarrow> recommendation" where
  "generateRecommendation groupA groupB which margin =
     (let winner = (if which = ''A'' then groupA else groupB);
          loser = (if which = ''A'' then groupB else groupA);
          wName = (if which = ''A'' then ''Group A'' else ''Group B'');
          lName = (if which = ''A'' then ''Group B'' else ''Group A'');
          r = js_div (gs_avgIncrease (stats winner)) (gs_avgIncrease (stats loser));
          sev = (if js_gt r 3 then ''significantly more''
                 else if js_gt r 2 then ''much more''
                 else if js_gt r 1.5 then ''moderately more''
                 else ''somewhat more'')
      in \<lparr>winnerName = wName, severity = sev, rec_ratio = r, lessInflammatory = lName\<rparr>)"

record comparison_metrics =
  peakRatio :: jsnum
  increaseRatio :: jsnum
  spikeRatio :: jsnum
  peakDiff :: real
  increaseDiff :: real
  spikeDiff :: real
  moreInflammatory :: string
  inflammatoryMargin :: jsnum
  cm_recommendation :: recommendation

definition calculateComparison :: "group_result \<Rightarrow> group_result \<Rightarrow> comparison_metrics" where
  "calculateComparison groupA groupB =
     (let statsA = stats groupA;
          statsB = stats groupB;
          pRatio = js_div (gs_avgPeak statsA) (gs_avgPeak statsB);
          which = (if gs_avgIncrease statsB < gs_avgIncrease statsA then ''A'' else ''B'');
          margin = js_margin pRatio
      in \<lparr>peakRatio = pRatio,
          increaseRatio = js_div \<bar>gs_avgIncrease statsA\<bar> \<bar>gs_avgIncrease statsB\<bar>,
          spikeRatio = js_div (gs_avg7DaySpike statsA) (gs_avg7DaySpike statsB),
          peakDiff = gs_avgPeak statsA - gs_avgPeak statsB,
          increaseDiff = gs_avgIncrease statsA - gs_avgIncrease statsB,
          spikeDiff = gs_avg7DaySpike statsA - gs_avg7DaySpike statsB,
          moreInflammatory = which,
          inflammatoryMargin = margin,
          cm_recommendation = generateRecommendation groupA groupB which margin\<rparr>)"

record ab_comparison =
  groupA :: group_result
  groupB :: group_result
  ab_metrics :: comparison_metrics
  ab_windowSize :: int

type_synonym ab_state = "ab_comparison option"

text \<open>
  With the \<open>baselineMap\<close> slot \<open>null\<close>, \<open>analyzeGroup\<close> raises a \<open>TypeError\<close> on the first
  event of group A, at the latest on the first day of its 30-day baseline. The result is
  stored at the end.
\<close>

definition ABCompare_compare ::
  "zone \<Rightarrow> connector \<Rightarrow> filters \<Rightarrow> filters \<Rightarrow> options
     \<Rightarrow> error + (ab_comparison \<times> ab_state)" where
  "ABCompare_compare tz conn groupAFilters groupBFilters opts =
     (if \<not> isLoaded conn then Inl (Error ''Data not loaded'')
      else
        (let wsize = opt_or (windowSize opts) 14;
             eventsA = getEvents conn groupAFilters;
             eventsB = getEvents conn groupBFilters
         in if length eventsA = 0 \<or> length eventsB = 0
            then Inl (Error ''One or both groups have no events. Adjust your filters.'')
            else
              (case baselineMap conn of
                 None \<Rightarrow> Inl TypeError
               | Some bmap \<Rightarrow>
                   (let gA = analyzeGroup tz bmap eventsA wsize ''A'';
                        gB = analyzeGroup tz bmap eventsB wsize ''B'';
                        result = \<lparr>groupA = gA, groupB = gB,
                                  ab_metrics = calculateComparison gA gB,
                                  ab_windowSize = wsize\<rparr>
                    in Inr (result, Some result)))))"

record group_curves =
  gc_offsets :: "int list"
  gc_mean :: "real list"
  gc_upperBound :: "real list"
  gc_lowerBound :: "real list"

text \<open>The four arrays \<open>getOverlaidCurvesData\<close> makes of one group's curve.\<close>

definition groupCurves :: "group_result \<Rightarrow> group_curves" where
  "groupCurves g =
     \<lparr>gc_offsets = map ab_offset (group_avgCurve g),
      gc_mean = map ab_mean (group_avgCurve g),
      gc_upperBound = map ab_upperBound (group_avgCurve g),
      gc_lowerBound = map ab_lowerBound (group_avgCurve g)\<rparr>"

definition getOverlaidCurvesData :: "ab_state \<Rightarrow> (group_curves \<times> group_curves) option" where
  "getOverlaidCurvesData st =
     (case st of
        None \<Rightarrow> None
      | Some cmp \<Rightarrow> Some (groupCurves (groupA cmp), groupCurves (groupB cmp)))"

record bar_data =
  metrics :: "string list"
  bar_groupA :: "real list"
  bar_groupB :: "real list"

text \<open>\<open>avgTimeToPeak || 0\<close>.\<close>

definition ttp_or_zero :: "real option \<Rightarrow> real" where
  "ttp_or_zero v = (case v of None \<Rightarrow> 0 | Some x \<Rightarrow> x)"

text \<open>The four bars \<open>getComparisonBarData\<close> makes of one group.\<close>

definition barValues :: "group_result \<Rightarrow> real list" where
  "barValues g =
     [gs_avgPeak (stats g), gs_avgIncrease (stats g), gs_avg7DaySpike (stats g),
      ttp_or_zero (gs_avgTimeToPeak (stats g))]"

definition getComparisonBarData :: "ab_state \<Rightarrow> bar_data option" where
  "getComparisonBarData st =
     (case st of
        None \<Rightarrow> None
      | Some cmp \<Rightarrow>
          Some \<lparr>metrics = [''Avg Peak'', ''Avg Increase'', ''7-Day Spike'', ''Time to Peak''],
                bar_groupA = barValues (groupA cmp),
                bar_groupB = barValues (groupB cmp)\<rparr>)"

section \<open>Auxiliary notions for the statements\<close>

text \<open>The keys whose signal has a \<open>reactiveScore\<close> that is neither null nor undefined.\<close>

definition defined_keys :: "signals \<Rightarrow> signal_key list" where
  "defined_keys sigs = filter (\<lambda>k. score_at sigs k \<noteq> None) signal_keys"

text \<open>A score that is absent or lies in the unit interval.\<close>

definition unit_score :: "real option \<Rightarrow> bool" where
  "unit_score v = (case v of None \<Rightarrow> True | Some s \<Rightarrow> 0 \<le> s \<and> s \<le> 1)"

text \<open>The list \<open>analyzeMagnitude\<close> binds to \<open>similarEvents\<close>.\<close>

definition similarEvents :: "connector \<Rightarrow> event \<Rightarrow> event list" where
  "similarEvents conn ev =
     getEvents conn (no_filters\<lparr>filters.category := Some (event.category ev)\<rparr>)"

text \<open>The peak of the fixed window of 14 days on either side of an event.\<close>

definition peak14 :: "zone \<Rightarrow> (date \<rightharpoonup> real) \<Rightarrow> event \<Rightarrow> real" where
  "peak14 tz bmap e = max_values (map adiz_count (getWindowData tz (event.date e) 14 bmap))"


text \<open>
  The symbolic-date test as the specification words it: the event's day is at most two
  calendar days away from a day whose month and day of month are those of a symbolic
  date (which covers the turn of the year).
\<close>

definition nearSymbolicDate :: "date \<Rightarrow> bool" where
  "nearSymbolicDate d =
     list_ex (\<lambda>sd. list_ex (\<lambda>k. fst (snd (civil (d + k))) = sd_month sd
                                  \<and> snd (snd (civil (d + k))) = sd_day sd)
                       [- 2, - 1, 0, 1, 2])
       SYMBOLIC_DATES"

section \<open>A small data set\<close>

text \<open>
  Three arms sales (2022-11-04, 2023-02-12 and 2023-06-15, as day numbers) over a baseline
  with five recorded days; every other day is missing from the baseline.
\<close>

definition arms_record :: "date \<Rightarrow> string \<Rightarrow> raw_event" where
  "arms_record d what = \<lparr>dates = [''date'' \<mapsto> d], texts = [''weapon_sale'' \<mapsto> what]\<rparr>"

definition sample_baseline :: "baseline_entry option list" where
  "sample_baseline =
     [Some \<lparr>Date = 19300, ADIZ_count = Some 10\<rparr>,
      Some \<lparr>Date = 19400, ADIZ_count = Some 10\<rparr>,
      Some \<lparr>Date = 19523, ADIZ_count = Some 10\<rparr>,
      Some \<lparr>Date = 19524, ADIZ_count = Some 50\<rparr>,
      Some \<lparr>Date = 19525, ADIZ_count = Some 20\<rparr>]"

definition sample_data :: raw_data where
  "sample_data =
     \<lparr>adiz_baseline = Some sample_baseline,
      datasets = [''arms_sales'' \<mapsto>
        Rows [Some (arms_record 19523 ''F-16 parts''), Some (arms_record 19300 ''Radar''),
              Some (arms_record 19400 ''Missiles'')]]\<rparr>"

definition arms_event :: "date \<Rightarrow> string \<Rightarrow> event" where
  "arms_event d what =
     \<lparr>event.date = d, category = ''arms'', label = Some (what @ ''...''),
      description = what, raw_fields = arms_record d what, dataset = ''arms_sales''\<rparr>"

text \<open>The baseline map and the event index of the sample data, and the connector after
  \<open>loadFromObject\<close> on the sample data.\<close>

definition sample_map :: "date \<rightharpoonup> real" where
  "sample_map = [19300 \<mapsto> 10, 19400 \<mapsto> 10, 19523 \<mapsto> 10, 19524 \<mapsto> 50, 19525 \<mapsto> 20]"

definition sample_events :: "event list" where
  "sample_events =
     [arms_event 19300 ''Radar'', arms_event 19400 ''Missiles'', arms_event 19523 ''F-16 parts'']"

definition sample_loaded :: connector where
  "sample_loaded =
     \<lparr>currentData = Some sample_data, baselineMap = Some sample_map,
      eventIndex = Some sample_events\<rparr>"

definition sample_opts :: options where
  "sample_opts = \<lparr>windowSize = Some 3, baselineDays = None\<rparr>"

definition pt :: "date \<Rightarrow> real \<Rightarrow> int \<Rightarrow> window_point" where
  "pt d c k = \<lparr>window_point.date = d, adiz_count = c, days_from_event = k\<rparr>"

text \<open>The windows of radius 3 around the second and the third sample event, with the
  host in UTC.\<close>

definition sample_wd :: "window_point list" where
  "sample_wd = [pt 19397 0 (- 3), pt 19398 0 (- 2), pt 19399 0 (- 1), pt 19400 10 0,
                pt 19401 0 1, pt 19402 0 2, pt 19403 0 3]"


text \<open>The analysis \<open>classify\<close> computes for the second sample event with a window of
  radius 3, with the host in UTC.\<close>

definition sample_signals :: signals where
  "sample_signals =
     \<lparr>signals.temporal =
        \<lparr>signal.reactiveScore = Some 0.9, responseTime = Some 0, proximity = ''immediate''\<rparr>,
      signals.buildup =
        \<lparr>signal.reactiveScore = Some 0.5, trend = ''insufficient_data'', slope = None,
         avgPreEvent = None, baseline = None\<rparr>,
      signals.magnitude =
        \<lparr>signal.reactiveScore = None, thisPeak = Some 10, avgSimilarPeak = Some (70 / 3),
         ratio = Some (Fin (3 / 7)), temporalDays = None, comparison = ''typical''\<rparr>,
      signals.symbolic =
        \<lparr>signal.reactiveScore = Some 0.3, isSymbolic = True,
         symbolicDate = Some ''Double Ten Day (ROC National Day)'',
         nearbyEvents = [], closestEvent = None, symbolic_class = None\<rparr>,
      signals.pattern =
        \<lparr>signal.reactiveScore = Some 0.95,
         pattern_signal.pattern = ''sharp_spike_rapid_decay'',
         sharpness = PosInf, decayRate = Fin 1, sustained = False\<rparr>\<rparr>"

definition sample_analysis :: classifier_analysis where
  "sample_analysis =
     \<lparr>ca_event = arms_event 19400 ''Missiles'',
      ca_windowSize = 3,
      ca_windowData = sample_wd,
      ca_baselineStats = getBaselineStats utc 19400 30 sample_map,
      ca_signals = sample_signals,
      ca_classification =
        \<lparr>verdict = ''reactive'', confidence = ''medium'',
         classification.reactiveScore = Fin (23 / 30), prePlannedScore = Fin (7 / 30),
         weights = \<lparr>weights.temporal = 0.30, weights.buildup = 0.20,
                    weights.magnitude = 0.25, weights.symbolic = 0.05,
                    weights.pattern = 0.20\<rparr>\<rparr>\<rparr>"

text \<open>The connector after loading a data set with an empty baseline and no events.\<close>

definition empty_data :: raw_data where
  "empty_data = \<lparr>adiz_baseline = Some [], datasets = Map.empty\<rparr>"

definition empty_loaded :: connector where
  "empty_loaded =
     \<lparr>currentData = Some empty_data, baselineMap = Some Map.empty, eventIndex = Some []\<rparr>"

text \<open>
  A data set that passes \<open>validate\<close> and whose \<open>arms_sales\<close> array holds a \<open>null\<close> row,
  and the connector as a first \<open>loadFromObject\<close> on it leaves it: the call raises a
  \<open>TypeError\<close> in \<open>buildEventIndex\<close>, after \<open>currentData\<close> and \<open>baselineMap\<close> were
  assigned.
\<close>

definition broken_data :: raw_data where
  "broken_data =
     \<lparr>adiz_baseline = Some sample_baseline,
      datasets = [''arms_sales'' \<mapsto> Rows [Some (arms_record 19400 ''Missiles''), None]]\<rparr>"

definition half_loaded :: connector where
  "half_loaded =
     \<lparr>currentData = Some broken_data, baselineMap = Some sample_map, eventIndex = None\<rparr>"

chapter \<open>Properties\<close>

section \<open>Windows and baselines\<close>

lemma addDays_fixed: "addDays (fixed_zone ofs) d days = d + days * msPerDay"
  by (simp add: addDays_def LocalTime_def UTC_def fixed_zone_def inDaylight_def)

lemma formatDate_midnight: "formatDate (x * msPerDay) = x"
  by (simp add: formatDate_def)

lemma daysDiff_texts: "daysDiff date1 date2 = date2 - date1"
proof -
  have "date2 * msPerDay - date1 * msPerDay = (date2 - date1) * msPerDay"
    by (simp add: algebra_simps)
  then show ?thesis
    by (simp add: daysDiff_def parseDate_def)
qed

lemma dateLoop_fixed:
  "dateLoop (fixed_zone ofs) body (a * msPerDay) (b * msPerDay) acc
     = acc @ map (\<lambda>x. body (x * msPerDay)) [a..b]"
proof (induction a b arbitrary: acc rule: upto.induct)
  case (1 a b)
  show ?case
  proof (cases "a \<le> b")
    case True
    have step: "addDays (fixed_zone ofs) (a * msPerDay) 1 = (a + 1) * msPerDay"
      by (simp add: addDays_fixed algebra_simps)
    show ?thesis
      using True 1 [OF True, of "acc @ [body (a * msPerDay)]"]
      by (subst dateLoop.simps) (simp add: step upto_rec1)
  next
    case False
    then show ?thesis by (subst dateLoop.simps) simp
  qed
qed

lemma dateLoop_fixed_days:
  assumes "d = a * msPerDay" and "e = b * msPerDay"
  shows "dateLoop (fixed_zone ofs) body d e acc = acc @ map (\<lambda>x. body (x * msPerDay)) [a..b]"
  unfolding assms by (rule dateLoop_fixed)

lemma getDateWindow_fixed: "getDateWindow (fixed_zone ofs) a r = [a - r..a + r]"
proof -
  have s: "addDays (fixed_zone ofs) (parseDate a) (- r) = (a - r) * msPerDay"
    by (simp add: addDays_fixed parseDate_def algebra_simps)
  have e: "addDays (fixed_zone ofs) (parseDate a) r = (a + r) * msPerDay"
    by (simp add: addDays_fixed parseDate_def algebra_simps)
  have "dateLoop (fixed_zone ofs) formatDate (addDays (fixed_zone ofs) (parseDate a) (- r))
          (addDays (fixed_zone ofs) (parseDate a) r) []
        = [] @ map (\<lambda>x. formatDate (x * msPerDay)) [a - r..a + r]"
    by (rule dateLoop_fixed_days [OF s e])
  then show ?thesis
    by (simp add: getDateWindow_def formatDate_midnight)
qed

lemma map_minus_upto: "map (\<lambda>d. d - a) [i..j] = [i - a..j - a]"
proof (induction i j rule: upto.induct)
  case (1 i j)
  then show ?case by (cases "i \<le> j") (simp_all add: upto_rec1 algebra_simps)
qed

lemma getWindowData_offsets:
  "map days_from_event (getWindowData (fixed_zone ofs) a r m) = [- r..r]"
  using map_minus_upto [of a "a - r" "a + r"]
  by (simp add: getWindowData_def getDateWindow_fixed daysDiff_texts o_def)

lemma getWindowData_dates:
  "map window_point.date (getWindowData (fixed_zone ofs) a r m) = [a - r..a + r]"
  by (simp add: getWindowData_def getDateWindow_fixed o_def)

lemma getWindowData_point:
  "p \<in> set (getWindowData tz a r m) \<Longrightarrow>
     window_point.date p = a + days_from_event p
     \<and> adiz_count p = getADIZCount (window_point.date p) m"
  by (auto simp: getWindowData_def daysDiff_texts)

text \<open>
  On a host whose clock keeps one offset from UTC, \<open>getWindowData\<close> with a radius
  \<open>r \<ge> 0\<close> returns \<open>2r + 1\<close> points, their offsets the integers from \<open>-r\<close> to \<open>r\<close> in
  increasing order, the point at offset \<open>k\<close> being the day \<open>anchor + k\<close> with the count
  the index holds for that day, or 0.
\<close>

lemma getWindowData_fixed_shape:
  assumes "0 \<le> r"
  shows "length (getWindowData (fixed_zone ofs) anchor r idx) = nat (2 * r + 1)
     \<and> map days_from_event (getWindowData (fixed_zone ofs) anchor r idx) = [- r..r]
     \<and> (\<forall>p \<in> set (getWindowData (fixed_zone ofs) anchor r idx).
           window_point.date p = anchor + days_from_event p
         \<and> adiz_count p = (case idx (window_point.date p) of None \<Rightarrow> 0 | Some v \<Rightarrow> v))"
proof -
  have len: "length (getWindowData (fixed_zone ofs) anchor r idx) = nat (2 * r + 1)"
    using assms by (simp add: getWindowData_def getDateWindow_fixed)
  show ?thesis
    using len getWindowData_offsets [of ofs anchor r idx]
      getWindowData_point [of _ "fixed_zone ofs" anchor r idx]
    by (auto simp: getADIZCount_def)
qed

text \<open>
  C5. On a host in Central European time, the window of radius 3 around 2023-03-24 runs
  over the night of 26 March 2023, in which the clock is set forward. \<open>getWindowData\<close>
  returns seven points, but 2023-03-26 twice, with its count twice, and not 2023-03-27:
  the offsets are -3, -2, -1, 0, 1, 2, 2, which is not the sequence from -3 to 3, and the
  count the index holds for 2023-03-27 does not appear.
\<close>

theorem getWindowData_clock_change:
  "civil 19440 = (2023, 3, 24)
   \<and> map window_point.date (getWindowData berlin 19440 3 [19442 \<mapsto> 7, 19443 \<mapsto> 9])
       = [19437, 19438, 19439, 19440, 19441, 19442, 19442]
   \<and> map days_from_event (getWindowData berlin 19440 3 [19442 \<mapsto> 7, 19443 \<mapsto> 9])
       = [- 3, - 2, - 1, 0, 1, 2, 2]
   \<and> map adiz_count (getWindowData berlin 19440 3 [19442 \<mapsto> 7, 19443 \<mapsto> 9])
       = [0, 0, 0, 0, 0, 7, 7]
   \<and> map days_from_event (getWindowData berlin 19440 3 [19442 \<mapsto> 7, 19443 \<mapsto> 9])
       \<noteq> [- 3..3]"
proof -
  have c: "civil 19440 = (2023, 3, 24)"
    by code_simp
  have d: "getDateWindow berlin 19440 3 = [19437, 19438, 19439, 19440, 19441, 19442, 19442]"
    by (simp add: getDateWindow_def dateLoop.simps addDays_def LocalTime_def UTC_def
        inDaylight_def berlin_def parseDate_def formatDate_def)
  have u: "[- 3..3] = [- 3, - 2, - 1, 0, 1, 2, 3::int]"
    by (simp add: upto_rec1)
  show ?thesis
    unfolding u
    by (simp add: c getWindowData_def d daysDiff_texts getADIZCount_def)
qed

lemma getBaselineStats_values:
  "getBaselineStats (fixed_zone ofs) a n m =
     (let vals = map (\<lambda>d. getADIZCount d m) [a - 1 - n..a - 1]
      in \<lparr>bs_mean = mean vals, bs_stdDev = stdDev vals, bs_max = max_values vals,
          bs_min = min_values vals, bs_count = length vals\<rparr>)"
proof -
  let ?e = "addDays (fixed_zone ofs) (parseDate a) (- 1)"
  have e: "?e = (a - 1) * msPerDay"
    by (simp add: addDays_fixed parseDate_def algebra_simps)
  have s: "addDays (fixed_zone ofs) ?e (- n) = (a - 1 - n) * msPerDay"
    by (simp add: addDays_fixed parseDate_def algebra_simps)
  have "dateLoop (fixed_zone ofs) (\<lambda>d. getADIZCount (formatDate d) m)
          (addDays (fixed_zone ofs) ?e (- n)) ?e []
        = [] @ map (\<lambda>x. getADIZCount (formatDate (x * msPerDay)) m) [a - 1 - n..a - 1]"
    by (rule dateLoop_fixed_days [OF s e])
  then show ?thesis
    by (simp add: getBaselineStats_def formatDate_midnight Let_def)
qed

lemma getBaselineStats_count:
  "0 \<le> n \<Longrightarrow> bs_count (getBaselineStats (fixed_zone ofs) a n m) = nat (n + 1)"
  by (simp add: getBaselineStats_values Let_def)

text \<open>
  C4. With the default lookback of 30 days, on a host whose clock keeps one offset from
  UTC (\<open>ofs = 0\<close> is UTC itself), \<open>getBaselineStats\<close> collects the counts of the 31 days
  from \<open>anchor - 31\<close> to \<open>anchor - 1\<close>, whatever the index holds: the sample count is 31,
  one more than the lookback asked for. The event day is excluded and a day without an
  entry counts as 0.
\<close>

theorem getBaselineStats_30_count:
  "bs_count (getBaselineStats (fixed_zone ofs) anchor 30 idx) = 31
   \<and> bs_mean (getBaselineStats (fixed_zone ofs) anchor 30 idx)
       = mean (map (\<lambda>d. case idx d of None \<Rightarrow> 0 | Some v \<Rightarrow> v) [anchor - 31..anchor - 1])"
  by (simp add: getBaselineStats_values Let_def getADIZCount_def)

section \<open>The sample data\<close>



lemma sample_map: "createBaselineMap sample_baseline = Inr sample_map"
  by (simp add: createBaselineMap_def sample_baseline_def sample_map_def)


lemma sample_slots:
  "isLoaded sample_loaded" "baselineMap sample_loaded = Some sample_map"
  "eventIndex sample_loaded = Some sample_events"
  by (simp_all add: sample_loaded_def isLoaded_def)

lemma arms_event_sel:
  "event.category (arms_event d w) = ''arms''" "event.date (arms_event d w) = d"
  by (simp_all add: arms_event_def)


lemma sample_similar: "similarEvents sample_loaded (arms_event d w) = sample_events"
  by (simp add: similarEvents_def getEvents_def no_filters_def sample_slots sample_events_def
      arms_event_def)

lemma sample_political:
  "getEvents sample_loaded (no_filters\<lparr>filters.category := Some ''political''\<rparr>) = []"
  by (simp add: getEvents_def no_filters_def sample_slots sample_events_def arms_event_def)

lemma sample_wd: "getWindowData utc 19400 3 sample_map = sample_wd"
  by (simp add: utc_def getWindowData_def getDateWindow_fixed getADIZCount_def daysDiff_texts
      sample_map_def sample_wd_def pt_def)


lemma sample_peak14:
  "peak14 utc sample_map (arms_event 19300 ''Radar'') = 10"
  "peak14 utc sample_map (arms_event 19400 ''Missiles'') = 10"
  "peak14 utc sample_map (arms_event 19523 ''F-16 parts'') = 50"
  by (simp_all add: peak14_def utc_def getWindowData_def getDateWindow_fixed getADIZCount_def
      sample_map_def o_def arms_event_def max_values_def)

lemma sample_peaks: "map (peak14 utc sample_map) sample_events = [10, 10, 50]"
  by (simp add: sample_events_def sample_peak14)

lemma civil_19400: "civil 19400 = (2023, 2, 12)"
  by code_simp

lemma civil_19523: "civil 19523 = (2023, 6, 15)"
  by code_simp

lemma local_day_utc: "LocalTime utc (parseDate d) div msPerDay = d"
  by (simp add: LocalTime_def utc_def fixed_zone_def inDaylight_def parseDate_def)

section \<open>The weighted combination\<close>

lemma fold_accumulate:
  "fold (accumulate sigs w) ks acc =
     (fst acc + sum_list (map (\<lambda>k. the (score_at sigs k) * weight_at w k)
                           (filter (\<lambda>k. score_at sigs k \<noteq> None) ks)),
      snd acc + sum_list (map (weight_at w) (filter (\<lambda>k. score_at sigs k \<noteq> None) ks)))"
proof (induction ks arbitrary: acc)
  case Nil
  then show ?case by simp
next
  case (Cons k ks)
  show ?case
  proof (cases "score_at sigs k")
    case None
    then show ?thesis using Cons [of acc] by (simp add: accumulate_def)
  next
    case (Some sc)
    then show ?thesis
      using Cons [of "(fst acc + sc * weight_at w k, snd acc + weight_at w k)"]
      by (simp add: accumulate_def add.assoc)
  qed
qed

lemma calc_weights: "weights (calculateClassification sigs) = selectWeights sigs"
  by (simp add: calculateClassification_def Let_def)

lemma calc_score:
  "classification.reactiveScore (calculateClassification sigs) =
     js_div (sum_list (map (\<lambda>k. the (score_at sigs k) * weight_at (selectWeights sigs) k) (defined_keys sigs)))
            (sum_list (map (weight_at (selectWeights sigs)) (defined_keys sigs)))"
  by (simp add: calculateClassification_def Let_def fold_accumulate defined_keys_def)

lemma calc_verdict:
  "verdict (calculateClassification sigs) =
     (let sc = classification.reactiveScore (calculateClassification sigs)
      in if js_ge sc 0.65 then ''reactive'' else if js_le sc 0.35 then ''pre-planned'' else ''mixed'')"
  by (simp add: calculateClassification_def Let_def)

lemma calc_confidence:
  "confidence (calculateClassification sigs) =
     (let sc = classification.reactiveScore (calculateClassification sigs)
      in if js_ge sc 0.65 then (if js_ge sc 0.8 then ''high'' else ''medium'')
         else if js_le sc 0.35 then (if js_le sc 0.2 then ''high'' else ''medium'')
         else ''low'')"
  by (simp add: calculateClassification_def Let_def)

lemma weighted_sum_bounds:
  fixes w s :: "'a \<Rightarrow> real"
  assumes "\<And>k. k \<in> set ks \<Longrightarrow> 0 \<le> w k"
      and "\<And>k. k \<in> set ks \<Longrightarrow> 0 \<le> s k \<and> s k \<le> 1"
  shows "0 \<le> sum_list (map (\<lambda>k. s k * w k) ks)
       \<and> sum_list (map (\<lambda>k. s k * w k) ks) \<le> sum_list (map w ks)"
  using assms
proof (induction ks)
  case Nil
  then show ?case by simp
next
  case (Cons k ks)
  have k: "0 \<le> w k" "0 \<le> s k" "s k \<le> 1" using Cons.prems by simp_all
  have "s k * w k \<le> 1 * w k" using k by (intro mult_right_mono) simp_all
  moreover have "0 \<le> s k * w k" using k by simp
  moreover have "0 \<le> sum_list (map (\<lambda>k. s k * w k) ks)
       \<and> sum_list (map (\<lambda>k. s k * w k) ks) \<le> sum_list (map w ks)"
    using Cons by simp
  ultimately show ?case by simp
qed

lemma selectWeights_pos: "0 < weight_at (selectWeights sigs) k"
  by (cases k) (simp_all add: selectWeights_def)

lemma calc_unit:
  assumes t: "score_at sigs Temporal \<noteq> None"
      and u: "\<And>k. unit_score (score_at sigs k)"
  shows "\<exists>s. classification.reactiveScore (calculateClassification sigs) = Fin s \<and> 0 \<le> s \<and> s \<le> 1"
proof -
  let ?w = "weight_at (selectWeights sigs)"
  let ?ks = "defined_keys sigs"
  let ?num = "sum_list (map (\<lambda>k. the (score_at sigs k) * ?w k) ?ks)"
  let ?den = "sum_list (map ?w ?ks)"
  have mem: "Temporal \<in> set ?ks" using t by (simp add: defined_keys_def signal_keys_def)
  have nonneg: "\<And>k. k \<in> set ?ks \<Longrightarrow> 0 \<le> ?w k"
    using selectWeights_pos [of sigs] by (simp add: less_imp_le)
  have unit: "\<And>k. k \<in> set ?ks \<Longrightarrow> 0 \<le> the (score_at sigs k) \<and> the (score_at sigs k) \<le> 1"
  proof -
    fix k assume "k \<in> set ?ks"
    then obtain v where "score_at sigs k = Some v" by (auto simp: defined_keys_def)
    then show "0 \<le> the (score_at sigs k) \<and> the (score_at sigs k) \<le> 1"
      using u [of k] by (simp add: unit_score_def)
  qed
  have b: "0 \<le> ?num \<and> ?num \<le> ?den"
    using weighted_sum_bounds [of ?ks ?w "\<lambda>k. the (score_at sigs k)", OF nonneg unit] by simp
  have "?w Temporal \<in> set (map ?w ?ks)"
    using mem by (simp only: set_map) (rule imageI)
  moreover have "\<And>x. x \<in> set (map ?w ?ks) \<Longrightarrow> 0 \<le> x"
    using nonneg by (auto simp del: weight_at.simps)
  ultimately have "?w Temporal \<le> ?den"
    by (rule member_le_sum_list)
  then have pos: "0 < ?den" using selectWeights_pos [of sigs Temporal] by linarith
  have "classification.reactiveScore (calculateClassification sigs) = Fin (?num / ?den)"
    using pos by (simp add: calc_score js_div_def)
  moreover have "0 \<le> ?num / ?den" using b pos by simp
  moreover have "?num / ?den \<le> 1" using b pos by simp
  ultimately show ?thesis by blast
qed

section \<open>The five signals\<close>

lemma temporal_score:
  "signal.reactiveScore (analyzeTemporalProximity wd) \<in> {Some 0, Some 0.9, Some 0.5}"
  by (cases "getTimeToPeak wd") (simp_all add: analyzeTemporalProximity_def Let_def)

lemma buildup_score:
  "signal.reactiveScore (analyzePreEventBuildup wd bs) \<in> {Some 0.5, Some 0.2, Some 0.4, Some 0.8}"
  by (simp add: analyzePreEventBuildup_def Let_def)

lemma magnitude_score: 
  "signal.reactiveScore (analyzeMagnitude tz c m ev wd bs td)
     \<in> {Some 0.5, Some 0.95, Some 0.85, Some 0.7, Some 0.6, None}"
  by (simp add: analyzeMagnitude_def Let_def)

lemma pattern_score:
  "signal.reactiveScore (analyzePattern wd) \<in> {Some 0.95, Some 0.85, Some 0.7, Some 0.25, Some 0.5}"
  by (simp add: analyzePattern_def Let_def)

lemma hardcoded_score: 
  "signal.reactiveScore (checkHardcodedSymbolicDates tz d) \<in> {Some 0.3, Some 0.5}"
  by (simp add: checkHardcodedSymbolicDates_def Let_def split: option.splits)

lemma combinedText_blank: "combinedText e = '' ''"
  by (simp add: combinedText_def event_prop_def or_text_def or_else_def toLowerCase_def)

lemma keywordScore_blank: "keywordScore '' '' = (0.4, ''ambiguous_political'')"
  by (simp add: keywordScore_def)

lemma symbolic_score:
  "signal.reactiveScore (analyzeSymbolicTiming tz c d) \<in> {Some 0.3, Some 0.5, Some 0.4}"
proof (cases "length (getEvents c (no_filters\<lparr>filters.category := Some ''political''\<rparr>)) = 0")
  case True
  then show ?thesis
    using hardcoded_score [of tz d] by (auto simp: analyzeSymbolicTiming_def Let_def)
next
  case False
  then show ?thesis
    by (simp add: analyzeSymbolicTiming_def Let_def combinedText_blank keywordScore_blank split: list.splits)
qed

section \<open>The classifier on the sample data\<close>

lemma classify_parts:
  assumes "classify tz conn ev opts = Inr (a, st)"
  shows "\<exists>m. isLoaded conn \<and> baselineMap conn = Some m \<and> st = Some a
     \<and> ca_classification a = calculateClassification (ca_signals a)
     \<and> ca_windowData a = getWindowData tz (event.date ev) (opt_or (windowSize opts) 21) m
     \<and> signals.temporal (ca_signals a) = analyzeTemporalProximity (ca_windowData a)
     \<and> signals.buildup (ca_signals a) = analyzePreEventBuildup (ca_windowData a) (ca_baselineStats a)
     \<and> signals.magnitude (ca_signals a) =
           analyzeMagnitude tz conn m ev (ca_windowData a) (ca_baselineStats a) None
     \<and> signals.symbolic (ca_signals a) = analyzeSymbolicTiming tz conn (event.date ev)
     \<and> signals.pattern (ca_signals a) = analyzePattern (ca_windowData a)"
proof (cases "isLoaded conn")
  case False
  then show ?thesis using assms by (simp add: classify_def)
next
  case True
  show ?thesis
  proof (cases "baselineMap conn")
    case None
    then show ?thesis using assms True by (simp add: classify_def)
  next
    case (Some m)
    then show ?thesis using assms True by (auto simp: classify_def Let_def prop_days_def)
  qed
qed

lemma sample_magnitude:
  "analyzeMagnitude utc sample_loaded sample_map (arms_event 19400 ''Missiles'') sample_wd bs None =
     signals.magnitude sample_signals"
proof -
  have len: "length sample_events = 3" by (simp add: sample_events_def)
  have peak: "max_values (map adiz_count sample_wd) = 10"
    by (simp add: sample_wd_def pt_def max_values_def)
  have sim: "getEvents sample_loaded (no_filters\<lparr>filters.category := Some ''arms''\<rparr>)
      = sample_events"
    using sample_similar [of 0 "[]"] by (simp add: similarEvents_def arms_event_sel)
  have peaks: "map (\<lambda>e. max_values (map adiz_count
                   (getWindowData utc (event.date e) 14 sample_map)))
                 sample_events = [10, 10, 50]"
    using sample_peaks by (simp add: peak14_def [abs_def])
  show ?thesis
    by (simp add: analyzeMagnitude_def Let_def arms_event_sel sim len peaks
        peak mean_def js_div_def days_le_def sample_signals_def)
qed

lemma sample_temporal: "analyzeTemporalProximity sample_wd = signals.temporal sample_signals"
  by (simp add: analyzeTemporalProximity_def getTimeToPeak_def sample_wd_def pt_def
      sample_signals_def)

lemma sample_sustained: "isSustained sample_wd = False"
  by (simp add: isSustained_def sample_wd_def pt_def)

lemma sample_pattern: "analyzePattern sample_wd = signals.pattern sample_signals"
proof -
  have vals: "map adiz_count sample_wd = [0, 0, 0, 10, 0, 0, 0]"
    by (simp add: sample_wd_def pt_def)
  show ?thesis
    by (simp add: analyzePattern_def vals sample_sustained max_values_def slice_def mean_def
        js_div_def sample_signals_def)
qed

lemma sample_buildup: "analyzePreEventBuildup sample_wd bs = signals.buildup sample_signals"
  by (simp add: analyzePreEventBuildup_def sample_wd_def pt_def sample_signals_def)

lemma sample_symbolic:
  "analyzeSymbolicTiming utc sample_loaded 19400 = signals.symbolic sample_signals"
  by (simp add: analyzeSymbolicTiming_def sample_political checkHardcodedSymbolicDates_def
      getMonth_def getDate_def local_day_utc civil_19400 SYMBOLIC_DATES_def sample_signals_def)

lemma sample_signals_eq:
  "\<lparr>signals.temporal = signals.temporal sample_signals,
    signals.buildup = signals.buildup sample_signals,
    signals.magnitude = signals.magnitude sample_signals,
    signals.symbolic = signals.symbolic sample_signals,
    signals.pattern = signals.pattern sample_signals\<rparr> = sample_signals"
  by simp

lemma sample_classification:
  "calculateClassification sample_signals = ca_classification sample_analysis"
  by (simp add: calculateClassification_def selectWeights_def sample_signals_def
      sample_analysis_def signal_keys_def accumulate_def js_div_def Let_def)

lemma sample_classify:
  "classify utc sample_loaded (arms_event 19400 ''Missiles'') sample_opts =
     Inr (sample_analysis, Some sample_analysis)"
proof -
  have a: "sample_analysis =
     \<lparr>ca_event = arms_event 19400 ''Missiles'', ca_windowSize = 3, ca_windowData = sample_wd,
      ca_baselineStats = getBaselineStats utc 19400 30 sample_map,
      ca_signals = sample_signals,
      ca_classification = calculateClassification sample_signals\<rparr>"
    by (simp add: sample_classification) (simp add: sample_analysis_def)
  show ?thesis
    unfolding a
    by (simp add: classify_def sample_slots sample_opts_def opt_or_def arms_event_sel sample_wd
        Let_def sample_temporal sample_buildup sample_magnitude sample_symbolic sample_pattern
        prop_days_def sample_signals_eq)
qed

section \<open>Claims about the classification\<close>

lemma classify_returns:
  "isLoaded conn \<Longrightarrow> baselineMap conn \<noteq> None
     \<Longrightarrow> \<exists>a. classify tz conn ev opts = Inr (a, Some a)"
  by (auto simp: classify_def Let_def)

lemma classify_raises:
  "\<not> isLoaded conn \<Longrightarrow> classify tz conn ev opts = Inl (Error ''Data not loaded'')"
  by (simp add: classify_def)

lemma result_weights_and_score:
  assumes "classify tz conn ev opts = Inr (a, st)"
  shows "weights (ca_classification a) =
           (if pattern_signal.pattern (signals.pattern (ca_signals a)) = ''sharp_spike_rapid_decay''
            then \<lparr>weights.temporal = 0.30, weights.buildup = 0.20, weights.magnitude = 0.25,
                  weights.symbolic = 0.05, weights.pattern = 0.20\<rparr>
            else if comparison (signals.magnitude (ca_signals a)) = ''much_larger_immediate''
                  \<or> comparison (signals.magnitude (ca_signals a)) = ''large_near_immediate''
            then \<lparr>weights.temporal = 0.30, weights.buildup = 0.20, weights.magnitude = 0.30,
                  weights.symbolic = 0.10, weights.pattern = 0.10\<rparr>
            else \<lparr>weights.temporal = 0.35, weights.buildup = 0.25, weights.magnitude = 0.20,
                  weights.symbolic = 0.10, weights.pattern = 0.10\<rparr>)
       \<and> classification.reactiveScore (ca_classification a) =
           js_div (sum_list (map (\<lambda>k. the (score_at (ca_signals a) k)
                                       * weight_at (weights (ca_classification a)) k)
                              (defined_keys (ca_signals a))))
                  (sum_list (map (weight_at (weights (ca_classification a)))
                              (defined_keys (ca_signals a))))"
proof -
  have c: "ca_classification a = calculateClassification (ca_signals a)"
    using classify_parts [OF assms] by blast
  show ?thesis
    unfolding c calc_weights
    using calc_score [of "ca_signals a"] by (simp add: selectWeights_def)
qed

lemma result_score_and_verdict:
  assumes "classify tz conn ev opts = Inr (a, st)"
  shows "\<exists>s. classification.reactiveScore (ca_classification a) = Fin s
     \<and> 0 \<le> s \<and> s \<le> 1
     \<and> (verdict (ca_classification a) = ''reactive'' \<longleftrightarrow> 0.65 \<le> s)
     \<and> (verdict (ca_classification a) = ''pre-planned'' \<longleftrightarrow> s \<le> 0.35)
     \<and> (verdict (ca_classification a) = ''mixed'' \<longleftrightarrow> 0.35 < s \<and> s < 0.65)
     \<and> confidence (ca_classification a) =
          (if 0.65 \<le> s then (if 0.8 \<le> s then ''high'' else ''medium'')
           else if s \<le> 0.35 then (if s \<le> 0.2 then ''high'' else ''medium'')
           else ''low'')"
proof -
  obtain m where p:
    "ca_classification a = calculateClassification (ca_signals a)"
    "signals.temporal (ca_signals a) = analyzeTemporalProximity (ca_windowData a)"
    "signals.buildup (ca_signals a) = analyzePreEventBuildup (ca_windowData a) (ca_baselineStats a)"
    "signals.magnitude (ca_signals a) =
       analyzeMagnitude tz conn m ev (ca_windowData a) (ca_baselineStats a) None"
    "signals.symbolic (ca_signals a) = analyzeSymbolicTiming tz conn (event.date ev)"
    "signals.pattern (ca_signals a) = analyzePattern (ca_windowData a)"
    using classify_parts [OF assms] by blast
  have t: "score_at (ca_signals a) Temporal \<noteq> None"
    using temporal_score [of "ca_windowData a"] by (auto simp: p)
  have u: "unit_score (score_at (ca_signals a) k)" for k
  proof (cases k)
    case Temporal
    then show ?thesis using temporal_score [of "ca_windowData a"] by (auto simp: p unit_score_def)
  next
    case Buildup
    then show ?thesis
      using buildup_score [of "ca_windowData a" "ca_baselineStats a"]
      by (auto simp: p unit_score_def)
  next
    case Magnitude
    then show ?thesis
      using magnitude_score [of tz conn m ev "ca_windowData a" "ca_baselineStats a" None]
      by (auto simp: p unit_score_def)
  next
    case Symbolic
    then show ?thesis
      using symbolic_score [of tz conn "event.date ev"] by (auto simp: p unit_score_def)
  next
    case Pattern
    then show ?thesis using pattern_score [of "ca_windowData a"] by (auto simp: p unit_score_def)
  qed
  obtain s where s: "classification.reactiveScore (calculateClassification (ca_signals a)) = Fin s"
      "0 \<le> s" "s \<le> 1"
    using calc_unit [OF t u] by blast
  have v: "verdict (calculateClassification (ca_signals a)) =
      (if 0.65 \<le> s then ''reactive'' else if s \<le> 0.35 then ''pre-planned'' else ''mixed'')"
    by (simp add: calc_verdict s)
  have cf: "confidence (calculateClassification (ca_signals a)) =
          (if 0.65 \<le> s then (if 0.8 \<le> s then ''high'' else ''medium'')
           else if s \<le> 0.35 then (if s \<le> 0.2 then ''high'' else ''medium'')
           else ''low'')"
    by (simp add: calc_confidence s)
  show ?thesis
    unfolding p(1) using s v cf by auto
qed

text \<open>
  The magnitude signal \<open>classify\<close> computes is never one of the two compound cases: the
  call passes no day count, so the second weight vector is never chosen by \<open>classify\<close>.
\<close>

lemma classify_never_compound:
  assumes "classify tz conn ev opts = Inr (a, st)"
  shows "comparison (signals.magnitude (ca_signals a)) \<noteq> ''much_larger_immediate''
       \<and> comparison (signals.magnitude (ca_signals a)) \<noteq> ''large_near_immediate''"
proof -
  obtain m where "signals.magnitude (ca_signals a) =
       analyzeMagnitude tz conn m ev (ca_windowData a) (ca_baselineStats a) None"
    using classify_parts [OF assms] by blast
  then show ?thesis
    by (simp add: analyzeMagnitude_def Let_def days_le_def)
qed

text \<open>
  C1. Every call of \<open>classify\<close> on loaded data, in any time zone of the host, returns a
  result (the data is loaded when \<open>isLoaded\<close> holds and the connector has its baseline
  map). The weight vector of the result is the sharp-spike vector when the pattern signal
  is \<open>sharp_spike_rapid_decay\<close>, otherwise the compound-magnitude vector when the
  magnitude signal's comparison is \<open>much_larger_immediate\<close> or \<open>large_near_immediate\<close>,
  otherwise the base vector; and the final score is the sum of score times weight over
  the signals whose score is defined, divided by the sum of the weights of those same
  signals.
\<close>

theorem classify_weights_and_score:
  assumes "isLoaded conn" and "baselineMap conn \<noteq> None"
  shows "\<exists>a. classify tz conn ev opts = Inr (a, Some a)
     \<and> weights (ca_classification a) =
           (if pattern_signal.pattern (signals.pattern (ca_signals a)) = ''sharp_spike_rapid_decay''
            then \<lparr>weights.temporal = 0.30, weights.buildup = 0.20, weights.magnitude = 0.25,
                  weights.symbolic = 0.05, weights.pattern = 0.20\<rparr>
            else if comparison (signals.magnitude (ca_signals a)) = ''much_larger_immediate''
                  \<or> comparison (signals.magnitude (ca_signals a)) = ''large_near_immediate''
            then \<lparr>weights.temporal = 0.30, weights.buildup = 0.20, weights.magnitude = 0.30,
                  weights.symbolic = 0.10, weights.pattern = 0.10\<rparr>
            else \<lparr>weights.temporal = 0.35, weights.buildup = 0.25, weights.magnitude = 0.20,
                  weights.symbolic = 0.10, weights.pattern = 0.10\<rparr>)
     \<and> classification.reactiveScore (ca_classification a) =
           js_div (sum_list (map (\<lambda>k. the (score_at (ca_signals a) k)
                                       * weight_at (weights (ca_classification a)) k)
                              (defined_keys (ca_signals a))))
                  (sum_list (map (weight_at (weights (ca_classification a)))
                              (defined_keys (ca_signals a))))"
proof -
  obtain a where a: "classify tz conn ev opts = Inr (a, Some a)"
    using classify_returns [OF assms] by blast
  show ?thesis
    using a result_weights_and_score [OF a] by blast
qed

theorem classify_weights_and_score_witness:
  "isLoaded sample_loaded \<and> baselineMap sample_loaded \<noteq> None
   \<and> classify utc sample_loaded (arms_event 19400 ''Missiles'') sample_opts
        = Inr (sample_analysis, Some sample_analysis)
   \<and> weights (ca_classification sample_analysis) =
        \<lparr>weights.temporal = 0.30, weights.buildup = 0.20, weights.magnitude = 0.25,
         weights.symbolic = 0.05, weights.pattern = 0.20\<rparr>
   \<and> defined_keys (ca_signals sample_analysis) = [Temporal, Buildup, Symbolic, Pattern]
   \<and> classification.reactiveScore (ca_classification sample_analysis) =
        js_div (0.9 * 0.30 + 0.5 * 0.20 + 0.3 * 0.05 + 0.95 * 0.20) (0.30 + 0.20 + 0.05 + 0.20)"
proof -
  have l: "isLoaded sample_loaded" by (simp add: sample_slots)
  have b: "baselineMap sample_loaded \<noteq> None" by (simp add: sample_slots)
  have dk: "defined_keys sample_signals = [Temporal, Buildup, Symbolic, Pattern]"
    by (simp add: defined_keys_def signal_keys_def sample_signals_def del: not_None_eq)
  obtain a where a: "classify utc sample_loaded (arms_event 19400 ''Missiles'') sample_opts
        = Inr (a, Some a)"
      and s: "classification.reactiveScore (ca_classification a) =
           js_div (sum_list (map (\<lambda>k. the (score_at (ca_signals a) k)
                                       * weight_at (weights (ca_classification a)) k)
                              (defined_keys (ca_signals a))))
                  (sum_list (map (weight_at (weights (ca_classification a)))
                              (defined_keys (ca_signals a))))"
    using classify_weights_and_score [OF l b, of utc "arms_event 19400 ''Missiles''" sample_opts]
    by blast
  have e: "a = sample_analysis" using a sample_classify by simp
  have "classification.reactiveScore (ca_classification sample_analysis) =
        js_div (0.9 * 0.30 + 0.5 * 0.20 + 0.3 * 0.05 + 0.95 * 0.20) (0.30 + 0.20 + 0.05 + 0.20)"
    using s dk unfolding e by (simp add: sample_analysis_def sample_signals_def)
  then show ?thesis
    using l b sample_classify dk by (simp add: sample_analysis_def)
qed

text \<open>
  C2. For every call of \<open>classify\<close> on loaded data, in any time zone of the host, the
  final score is a finite number between 0 and 1; the verdict is \<open>reactive\<close> exactly when
  the score is at least 0.65, \<open>pre-planned\<close> exactly when it is at most 0.35 and \<open>mixed\<close>
  exactly in between; the confidence is \<open>high\<close> from 0.8 up and from 0.2 down, \<open>medium\<close>
  for the other reactive and pre-planned scores, and \<open>low\<close> for every mixed one.
\<close>

theorem classify_score_and_verdict:
  assumes "isLoaded conn" and "baselineMap conn \<noteq> None"
  shows "\<exists>a s. classify tz conn ev opts = Inr (a, Some a)
     \<and> classification.reactiveScore (ca_classification a) = Fin s
     \<and> 0 \<le> s \<and> s \<le> 1
     \<and> (verdict (ca_classification a) = ''reactive'' \<longleftrightarrow> 0.65 \<le> s)
     \<and> (verdict (ca_classification a) = ''pre-planned'' \<longleftrightarrow> s \<le> 0.35)
     \<and> (verdict (ca_classification a) = ''mixed'' \<longleftrightarrow> 0.35 < s \<and> s < 0.65)
     \<and> confidence (ca_classification a) =
          (if 0.65 \<le> s then (if 0.8 \<le> s then ''high'' else ''medium'')
           else if s \<le> 0.35 then (if s \<le> 0.2 then ''high'' else ''medium'')
           else ''low'')"
proof -
  obtain a where a: "classify tz conn ev opts = Inr (a, Some a)"
    using classify_returns [OF assms] by blast
  show ?thesis
    using a result_score_and_verdict [OF a] by blast
qed

theorem classify_score_and_verdict_witness:
  "isLoaded sample_loaded \<and> baselineMap sample_loaded \<noteq> None
   \<and> classify utc sample_loaded (arms_event 19400 ''Missiles'') sample_opts
        = Inr (sample_analysis, Some sample_analysis)
   \<and> classification.reactiveScore (ca_classification sample_analysis) = Fin (23 / 30)
   \<and> verdict (ca_classification sample_analysis) = ''reactive''
   \<and> confidence (ca_classification sample_analysis) = ''medium''"
proof -
  have l: "isLoaded sample_loaded" by (simp add: sample_slots)
  have b: "baselineMap sample_loaded \<noteq> None" by (simp add: sample_slots)
  obtain a s where a: "classify utc sample_loaded (arms_event 19400 ''Missiles'') sample_opts
        = Inr (a, Some a)"
      and s: "classification.reactiveScore (ca_classification a) = Fin s"
      and v: "verdict (ca_classification a) = ''reactive'' \<longleftrightarrow> 0.65 \<le> s"
      and c: "confidence (ca_classification a) =
          (if 0.65 \<le> s then (if 0.8 \<le> s then ''high'' else ''medium'')
           else if s \<le> 0.35 then (if s \<le> 0.2 then ''high'' else ''medium'')
           else ''low'')"
    using classify_score_and_verdict [OF l b, of utc "arms_event 19400 ''Missiles''" sample_opts]
    by blast
  have e: "a = sample_analysis" using a sample_classify by simp
  have sc: "classification.reactiveScore (ca_classification sample_analysis) = Fin (23 / 30)"
    by (simp add: sample_analysis_def)
  then have "s = 23 / 30" using s unfolding e by simp
  then show ?thesis
    using l b sample_classify sc v c unfolding e by simp
qed

section \<open>The magnitude and the symbolic-timing signal\<close>

lemma js_gt_mono: "js_gt r a \<Longrightarrow> b \<le> a \<Longrightarrow> js_gt r b"
  by (cases r) simp_all

lemma analyzeMagnitude_few:
  assumes "length (similarEvents c ev) < 3"
  shows "analyzeMagnitude tz c m ev wd bs td =
     \<lparr>signal.reactiveScore = Some 0.5, thisPeak = None, avgSimilarPeak = None, ratio = None,
      temporalDays = None, comparison = ''insufficient_data''\<rparr>"
  using assms by (simp add: analyzeMagnitude_def similarEvents_def Let_def)

lemma analyzeMagnitude_fields:
  assumes "3 \<le> length (similarEvents c ev)"
  shows "thisPeak (analyzeMagnitude tz c m ev wd bs td) = Some (max_values (map adiz_count wd))"
    and "avgSimilarPeak (analyzeMagnitude tz c m ev wd bs td) =
           Some (mean (filter (\<lambda>p. 0 < p) (map (peak14 tz m) (take 20 (similarEvents c ev)))))"
    and "ratio (analyzeMagnitude tz c m ev wd bs td) =
           Some (js_div (max_values (map adiz_count wd))
                   (mean (filter (\<lambda>p. 0 < p) (map (peak14 tz m) (take 20 (similarEvents c ev))))))"
  using assms
  by (simp_all add: analyzeMagnitude_def similarEvents_def Let_def peak14_def [abs_def])

lemma analyzeMagnitude_typical:
  assumes "3 \<le> length (similarEvents c ev)"
      and "ratio (analyzeMagnitude tz c m ev wd bs td) = Some r"
      and "\<not> js_gt r 1.5"
  shows "comparison (analyzeMagnitude tz c m ev wd bs td) = ''typical''
       \<and> signal.reactiveScore (analyzeMagnitude tz c m ev wd bs td) = None"
proof -
  have r: "r = js_div (max_values (map adiz_count wd))
                   (mean (filter (\<lambda>p. 0 < p) (map (peak14 tz m) (take 20 (similarEvents c ev)))))"
    using analyzeMagnitude_fields(3) [OF assms(1), of tz m wd bs td] assms(2) by simp
  have n: "\<not> js_gt r 2.5" "\<not> js_gt r 2.0"
    using assms(3) js_gt_mono [of r "2.5" "1.5"] js_gt_mono [of r "2.0" "1.5"] by auto
  show ?thesis
    using assms(1) n assms(3) unfolding r
    by (simp add: analyzeMagnitude_def similarEvents_def Let_def peak14_def [abs_def])
qed

text \<open>
  C3. With the host in UTC, the second sample event has three same-category events to
  compare with and a magnitude ratio of 3/7, below 1.5, so \<open>analyzeMagnitude\<close> takes its
  last branch, \<open>typical\<close>. The score it returns there is undefined, not 0.5, and
  \<open>classify\<close> leaves the magnitude signal out of the weighted combination: the final
  score is 23/30, the average over the other four signals.
\<close>

theorem classify_typical_magnitude_dropped:
  "\<exists>a st. classify utc sample_loaded (arms_event 19400 ''Missiles'') sample_opts = Inr (a, st)
     \<and> 3 \<le> length (similarEvents sample_loaded (arms_event 19400 ''Missiles''))
     \<and> ratio (signals.magnitude (ca_signals a)) = Some (Fin (3 / 7))
     \<and> comparison (signals.magnitude (ca_signals a)) = ''typical''
     \<and> signal.reactiveScore (signals.magnitude (ca_signals a)) = None
     \<and> defined_keys (ca_signals a) = [Temporal, Buildup, Symbolic, Pattern]
     \<and> classification.reactiveScore (ca_classification a) = Fin (23 / 30)"
proof -
  have "3 \<le> length (similarEvents sample_loaded (arms_event 19400 ''Missiles''))"
    by (simp add: sample_similar) (simp add: sample_events_def)
  moreover have "defined_keys sample_signals = [Temporal, Buildup, Symbolic, Pattern]"
    by (simp add: defined_keys_def signal_keys_def sample_signals_def del: not_None_eq)
  ultimately show ?thesis
    using sample_classify by (simp add: sample_analysis_def sample_signals_def)
qed

lemma hardcoded_always_symbolic:
  "isSymbolic (checkHardcodedSymbolicDates tz d)
   \<and> signal.reactiveScore (checkHardcodedSymbolicDates tz d) = Some 0.3"
proof -
  define c where "c = (getMonth tz (parseDate d) + 1) * 100 + getDate tz (parseDate d)"
  have "\<bar>c - 1010\<bar> \<le> 2 \<or> 98 \<le> \<bar>c - 1010\<bar> \<or> \<bar>c - 101\<bar> \<le> 2 \<or> 98 \<le> \<bar>c - 101\<bar>"
    by arith
  then have "find (\<lambda>sd. let daysDiff = \<bar>c - (sd_month sd * 100 + sd_day sd)\<bar>
                       in daysDiff \<le> 2 \<or> 98 \<le> daysDiff) SYMBOLIC_DATES \<noteq> None"
    by (auto simp: SYMBOLIC_DATES_def Let_def)
  then show ?thesis
    by (auto simp: checkHardcodedSymbolicDates_def c_def Let_def)
qed

text \<open>
  C6. The sample catalog has no political event, so the symbolic-timing signal falls
  back to the fixed table. 2023-06-15 is more than two calendar days away from each of
  the six symbolic dates, and with the host in UTC the signal still reports a symbolic
  match (with score 0.3, naming Double Ten Day): the test \<open>daysDiff >= 98\<close> accepts it.
\<close>

theorem symbolic_fallback_mid_june:
  "civil 19523 = (2023, 6, 15)
   \<and> getEvents sample_loaded (no_filters\<lparr>filters.category := Some ''political''\<rparr>) = []
   \<and> \<not> nearSymbolicDate 19523
   \<and> isSymbolic (analyzeSymbolicTiming utc sample_loaded 19523)
   \<and> signal.reactiveScore (analyzeSymbolicTiming utc sample_loaded 19523) = Some 0.3
   \<and> symbolicDate (analyzeSymbolicTiming utc sample_loaded 19523)
       = Some ''Double Ten Day (ROC National Day)''"
proof -
  have far: "\<not> nearSymbolicDate 19523"
    by code_simp
  have s: "analyzeSymbolicTiming utc sample_loaded 19523 = checkHardcodedSymbolicDates utc 19523"
    by (simp add: analyzeSymbolicTiming_def sample_political)
  have h: "symbolicDate (checkHardcodedSymbolicDates utc 19523)
       = Some ''Double Ten Day (ROC National Day)''"
    by (simp add: checkHardcodedSymbolicDates_def getMonth_def getDate_def local_day_utc
        civil_19523 SYMBOLIC_DATES_def)
  show ?thesis
    using far h hardcoded_always_symbolic [of utc 19523]
    by (simp add: s civil_19523 sample_political)
qed

section \<open>The comparison set of the magnitude signal\<close>



lemma empty_load:
  "loadFromObject DataConnector_init (Some empty_data) =
     (Inr \<lparr>lr_ok = True, lr_data = empty_data, eventCount = 0\<rparr>, empty_loaded)"
proof -
  have v: "validate (Some empty_data) = \<lparr>ok = True, errors = []\<rparr>"
    by (simp add: validate_def empty_data_def schema_events_def)
  have i: "buildEventIndex empty_data = Inr []"
    by (simp add: buildEventIndex_def datasetEvents_def empty_data_def schema_events_def)
  have b: "adiz_baseline empty_data = Some []" by (simp add: empty_data_def)
  show ?thesis
    by (simp add: loadFromObject_def v i b Let_def createBaselineMap_def empty_loaded_def
        DataConnector_init_def)
qed

lemma load_slots:
  assumes "loadFromObject conn0 DATA = (Inr r, conn)"
  shows "\<exists>D m idx. DATA = Some D \<and> currentData conn = Some D
     \<and> baselineMap conn = Some m \<and> buildEventIndex D = Inr idx \<and> eventIndex conn = Some idx"
  using assms
  by (auto simp: loadFromObject_def Let_def split: if_splits option.splits sum.splits)


lemma max_values_Max: "vals \<noteq> [] \<Longrightarrow> max_values vals = Max (set vals)"
proof (cases vals)
  case Nil
  assume "vals \<noteq> []"
  with Nil show ?thesis by simp
next
  case (Cons v vs)
  then show ?thesis
    using Max.set_eq_fold [of v vs] by (simp add: max_values_def)
qed






section \<open>Errors and accessors of the analyzers\<close>

lemma single_stores:
  "SingleEventAnalyzer_analyze tz conn st0 ev opts = (Inr a, st) \<Longrightarrow> currentAnalysis st = Some a"
  by (auto simp: SingleEventAnalyzer_analyze_def Let_def split: if_splits option.splits)

lemma single_returns:
  assumes "isLoaded conn" and "baselineMap conn = Some m"
  shows "SingleEventAnalyzer_analyze tz conn st ev opts =
     (Inr (SingleEventAnalyzer_result tz conn m ev opts),
      st\<lparr>currentEvent := Some ev, currentWindow := opt_or (windowSize opts) 7,
         currentBaseline := opt_or (baselineDays opts) 30,
         currentAnalysis := Some (SingleEventAnalyzer_result tz conn m ev opts)\<rparr>)"
  using assms by (simp add: SingleEventAnalyzer_analyze_def Let_def)

lemma category_stores:
  "CategoryAnalyzer_analyze tz conn flt opts = Inr (a, st) \<Longrightarrow> st = Some a"
  by (auto simp: CategoryAnalyzer_analyze_def Let_def split: if_splits option.splits)

lemma compare_stores:
  "ABCompare_compare tz conn fltA fltB opts = Inr (a, st) \<Longrightarrow> st = Some a"
  by (auto simp: ABCompare_compare_def Let_def split: if_splits option.splits)

lemma classify_stores:
  "classify tz conn ev opts = Inr (a, st) \<Longrightarrow> st = Some a"
  using classify_parts [of tz conn ev opts a st] by blast

lemma accessors_after_analysis:
  "(SingleEventAnalyzer_analyze tz conn st0 ev opts = (Inr a, st) \<longrightarrow>
      getChartData st \<noteq> None \<and> getSummaryCard st \<noteq> None
      \<and> getConfounders st = Some (sa_confounders a))
   \<and> (CategoryAnalyzer_analyze tz conn flt opts = Inr (ca, cst) \<longrightarrow>
      getAverageCurveData cst \<noteq> None \<and> getEventOverlayData cst \<noteq> None
      \<and> getSummary cst \<noteq> None \<and> getTopEvents cst = Some (map eventRow (topEvents ca)))
   \<and> (ABCompare_compare tz conn fltA fltB opts = Inr (ab, abst) \<longrightarrow>
      getOverlaidCurvesData abst \<noteq> None \<and> getComparisonBarData abst \<noteq> None)
   \<and> (classify tz conn ev opts = Inr (cl, clst) \<longrightarrow>
      getSignalBreakdown clst \<noteq> None \<and> getPreEventTrendData clst \<noteq> None)"
  using single_stores [of tz conn st0 ev opts a st] category_stores [of tz conn flt opts ca cst]
    compare_stores [of tz conn fltA fltB opts ab abst]
    classify_stores [of tz conn ev opts cl clst]
  by (auto simp: getChartData_def getSummaryCard_def
      getConfounders_def getAverageCurveData_def getEventOverlayData_def getSummary_def
      getOverlaidCurvesData_def getComparisonBarData_def getSignalBreakdown_def
      getPreEventTrendData_def getTopEvents_def Let_def)

text \<open>
  What holds of the error handling. While \<open>currentData\<close> is \<open>null\<close>, as it is before any
  call of \<open>loadFromObject\<close> and after a call that \<open>validate\<close> rejected, each of the four
  entry points raises \<open>Data not loaded\<close>. Once \<open>isLoaded\<close> holds, the category analyzer
  raises its own error when the filters match no event, and the comparator raises its
  own error when either group is empty. A successful load makes \<open>isLoaded\<close> hold.
\<close>

lemma not_loaded_raises:
  assumes "\<not> isLoaded conn"
  shows "SingleEventAnalyzer_analyze tz conn st ev opts = (Inl (Error ''Data not loaded''), st)"
    and "CategoryAnalyzer_analyze tz conn flt opts = Inl (Error ''Data not loaded'')"
    and "ABCompare_compare tz conn fltA fltB opts = Inl (Error ''Data not loaded'')"
    and "classify tz conn ev opts = Inl (Error ''Data not loaded'')"
  using assms
  by (simp_all add: SingleEventAnalyzer_analyze_def CategoryAnalyzer_analyze_def
      ABCompare_compare_def classify_def)

lemma initially_not_loaded: "\<not> isLoaded DataConnector_init"
  by (simp add: isLoaded_def DataConnector_init_def)

lemma rejected_load_keeps:
  "\<not> ok (validate DATA) \<Longrightarrow>
     loadFromObject conn DATA =
       (Inl (Error (''Invalid DATA structure: '' @ join_comma (errors (validate DATA)))), conn)"
  by (simp add: loadFromObject_def Let_def)

lemma load_sets_loaded:
  "loadFromObject conn0 DATA = (Inr r, conn) \<Longrightarrow> isLoaded conn"
  using load_slots [of conn0 DATA r conn] by (auto simp: isLoaded_def)

lemma no_events_raises:
  assumes "isLoaded conn"
  shows "getEvents conn flt = [] \<Longrightarrow>
           CategoryAnalyzer_analyze tz conn flt opts =
             Inl (Error ''No events match these filters. Try different filter combination.'')"
    and "getEvents conn fltA = [] \<or> getEvents conn fltB = [] \<Longrightarrow>
           ABCompare_compare tz conn fltA fltB opts =
             Inl (Error ''One or both groups have no events. Adjust your filters.'')"
  using assms
  by (auto simp: CategoryAnalyzer_analyze_def ABCompare_compare_def Let_def)

lemma sample_ships:
  "getEvents sample_loaded (no_filters\<lparr>filters.category := Some ''ships''\<rparr>) = []"
  by (simp add: getEvents_def no_filters_def sample_slots sample_events_def arms_event_def)

lemma broken_validate: "validate (Some broken_data) = \<lparr>ok = True, errors = []\<rparr>"
  by (simp add: validate_def broken_data_def schema_events_def)

lemma broken_index: "buildEventIndex broken_data = Inl TypeError"
  by (simp add: buildEventIndex_def datasetEvents_def rowEvents_def broken_data_def
      schema_events_def normalizeEvent_def arms_record_def)

lemma broken_load:
  "loadFromObject DataConnector_init (Some broken_data) = (Inl TypeError, half_loaded)"
proof -
  have b: "adiz_baseline broken_data = Some sample_baseline" by (simp add: broken_data_def)
  show ?thesis
    by (simp add: loadFromObject_def broken_validate broken_index Let_def sample_map b
        half_loaded_def DataConnector_init_def)
qed

lemma half_slots:
  "isLoaded half_loaded" "baselineMap half_loaded = Some sample_map"
  "eventIndex half_loaded = None"
  by (simp_all add: half_loaded_def isLoaded_def)

lemma half_events: "getEvents half_loaded flt = []"
  by (simp add: getEvents_def half_slots)

lemma half_classify:
  "\<exists>a. classify utc half_loaded (arms_event 19400 ''Missiles'') sample_opts = Inr (a, Some a)
     \<and> comparison (signals.magnitude (ca_signals a)) = ''insufficient_data''
     \<and> verdict (ca_classification a) = ''reactive''
     \<and> classification.reactiveScore (ca_classification a) = Fin (7 / 10)"
proof -
  define mag :: magnitude_signal where
    "mag = \<lparr>signal.reactiveScore = Some 0.5, thisPeak = None, avgSimilarPeak = None,
            ratio = None, temporalDays = None, comparison = ''insufficient_data''\<rparr>"
  define sigs where
    "sigs = \<lparr>signals.temporal = signals.temporal sample_signals,
             signals.buildup = signals.buildup sample_signals,
             signals.magnitude = mag,
             signals.symbolic = signals.symbolic sample_signals,
             signals.pattern = signals.pattern sample_signals\<rparr>"
  have m: "analyzeMagnitude utc half_loaded sample_map (arms_event 19400 ''Missiles'')
             sample_wd bs None = mag" for bs
    unfolding mag_def by (rule analyzeMagnitude_few) (simp add: similarEvents_def half_events)
  have s: "analyzeSymbolicTiming utc half_loaded 19400 = signals.symbolic sample_signals"
    by (simp add: analyzeSymbolicTiming_def half_events checkHardcodedSymbolicDates_def
        getMonth_def getDate_def local_day_utc civil_19400 SYMBOLIC_DATES_def
        sample_signals_def)
  have c: "classify utc half_loaded (arms_event 19400 ''Missiles'') sample_opts =
      Inr (\<lparr>ca_event = arms_event 19400 ''Missiles'', ca_windowSize = 3,
            ca_windowData = sample_wd,
            ca_baselineStats = getBaselineStats utc 19400 30 sample_map,
            ca_signals = sigs, ca_classification = calculateClassification sigs\<rparr>,
           Some \<lparr>ca_event = arms_event 19400 ''Missiles'', ca_windowSize = 3,
            ca_windowData = sample_wd,
            ca_baselineStats = getBaselineStats utc 19400 30 sample_map,
            ca_signals = sigs, ca_classification = calculateClassification sigs\<rparr>)"
    by (simp add: classify_def half_slots sample_opts_def opt_or_def arms_event_sel sample_wd
        Let_def sample_temporal sample_buildup m s sample_pattern prop_days_def sigs_def)
  have v: "verdict (calculateClassification sigs) = ''reactive''
      \<and> classification.reactiveScore (calculateClassification sigs) = Fin (7 / 10)"
    by (simp add: calculateClassification_def selectWeights_def sigs_def mag_def
        sample_signals_def signal_keys_def accumulate_def js_div_def Let_def)
  have g: "comparison (signals.magnitude sigs) = ''insufficient_data''"
    by (simp add: sigs_def mag_def)
  show ?thesis
    using c v g by simp
qed

text \<open>
  C8. A first \<open>loadFromObject\<close> on a data set that passes \<open>validate\<close> and holds a \<open>null\<close>
  row raises a \<open>TypeError\<close> while it builds the event index, after it has assigned
  \<open>currentData\<close>: the load has failed, no load has succeeded, and \<open>isLoaded\<close> holds. The
  entry points called then do not raise \<open>Data not loaded\<close>: \<open>classify\<close> returns a verdict
  and the single-event analyzer returns and stores an analysis, both computed over an
  empty catalog, and the category analyzer and the comparator raise their empty-result
  errors.
\<close>

theorem analysis_after_failed_load:
  "ok (validate (Some broken_data))
   \<and> \<not> isLoaded DataConnector_init
   \<and> loadFromObject DataConnector_init (Some broken_data) = (Inl TypeError, half_loaded)
   \<and> isLoaded half_loaded
   \<and> (\<exists>a. classify utc half_loaded (arms_event 19400 ''Missiles'') sample_opts
             = Inr (a, Some a)
          \<and> comparison (signals.magnitude (ca_signals a)) = ''insufficient_data''
          \<and> verdict (ca_classification a) = ''reactive''
          \<and> classification.reactiveScore (ca_classification a) = Fin (7 / 10))
   \<and> (\<exists>a st. SingleEventAnalyzer_analyze utc half_loaded SingleEventAnalyzer_init
                (arms_event 19400 ''Missiles'') sample_opts = (Inr a, st)
          \<and> currentAnalysis st = Some a
          \<and> sa_window_data a = sample_wd
          \<and> sa_confounders a = [])
   \<and> CategoryAnalyzer_analyze utc half_loaded no_filters sample_opts
       = Inl (Error ''No events match these filters. Try different filter combination.'')
   \<and> ABCompare_compare utc half_loaded no_filters no_filters sample_opts
       = Inl (Error ''One or both groups have no events. Adjust your filters.'')"
proof -
  have w: "sa_window_data (SingleEventAnalyzer_result utc half_loaded sample_map
              (arms_event 19400 ''Missiles'') sample_opts) = sample_wd"
    by (simp add: SingleEventAnalyzer_result_def Let_def sample_opts_def opt_or_def
        arms_event_sel sample_wd)
  have f: "sa_confounders (SingleEventAnalyzer_result utc half_loaded sample_map
              (arms_event 19400 ''Missiles'') sample_opts) = []"
    by (simp add: SingleEventAnalyzer_result_def Let_def getEventsInWindow_def half_events)
  have s: "\<exists>a st. SingleEventAnalyzer_analyze utc half_loaded SingleEventAnalyzer_init
                (arms_event 19400 ''Missiles'') sample_opts = (Inr a, st)
          \<and> currentAnalysis st = Some a \<and> sa_window_data a = sample_wd
          \<and> sa_confounders a = []"
    using w f by (simp add: single_returns [OF half_slots(1) half_slots(2)])
  show ?thesis
    using s half_classify
    by (simp add: broken_validate initially_not_loaded broken_load half_slots
        no_events_raises [OF half_slots(1)] half_events)
qed

text \<open>
  C9, as stated, fails: before any analysis the three list accessors \<open>getConfounders\<close>,
  \<open>getTopEvents\<close> and \<open>getBottomEvents\<close> return the empty list, not null.
\<close>

theorem list_accessors_counterexample:
  "currentAnalysis SingleEventAnalyzer_init = None
   \<and> getConfounders SingleEventAnalyzer_init = Some []
   \<and> getTopEvents None = Some []
   \<and> getBottomEvents None = Some []"
  by (simp add: SingleEventAnalyzer_init_def getConfounders_def getTopEvents_def
      getBottomEvents_def)

text \<open>
  C9, amended. Before the corresponding analysis has run, every accessor that returns a
  record (chart data, summary card, average curve, event overlay, category summary,
  overlaid curves, comparison bars, signal breakdown, pre-event trend) returns null, and
  the three list accessors return the empty list.
\<close>

theorem accessors_before_analysis:
  "(currentAnalysis st = None \<longrightarrow>
      getChartData st = None \<and> getSummaryCard st = None \<and> getConfounders st = Some [])
   \<and> getAverageCurveData None = None
   \<and> getEventOverlayData None = None
   \<and> getSummary None = None
   \<and> getTopEvents None = Some []
   \<and> getBottomEvents None = Some []
   \<and> getOverlaidCurvesData None = None
   \<and> getComparisonBarData None = None
   \<and> getSignalBreakdown None = None
   \<and> getPreEventTrendData None = None"
  by (simp add: getChartData_def getSummaryCard_def getConfounders_def getAverageCurveData_def
      getEventOverlayData_def getSummary_def getTopEvents_def getBottomEvents_def
      getOverlaidCurvesData_def getComparisonBarData_def getSignalBreakdown_def
      getPreEventTrendData_def)

theorem accessors_before_analysis_witness:
  "currentAnalysis SingleEventAnalyzer_init = None
   \<and> getChartData SingleEventAnalyzer_init = None
   \<and> getSummaryCard SingleEventAnalyzer_init = None
   \<and> getConfounders SingleEventAnalyzer_init = Some []"
proof -
  have "currentAnalysis SingleEventAnalyzer_init = None"
    by (simp add: SingleEventAnalyzer_init_def)
  then show ?thesis
    using accessors_before_analysis [of SingleEventAnalyzer_init] by simp
qed

end
